theory Spec2Isabelle
  imports Main "HOL-Library.Sublist" "HOL-Library.AList"
begin

section \<open>JavaScript values used by the theme provider\<close>

text \<open>
  Strings are character lists. A value that may be \<^verbatim>\<open>undefined\<close> or \<^verbatim>\<open>null\<close> is a
  \<open>string option\<close>. The only coercion the source relies on is truthiness: \<^verbatim>\<open>undefined\<close>,
  \<^verbatim>\<open>null\<close> and the empty string are falsy, every other string is truthy.
  Objects used as dictionaries (the \<^verbatim>\<open>value\<close> prop) are association lists of their own
  properties in insertion order, each key once and none named \<^verbatim>\<open>__proto__\<close> (which an
  object literal cannot make an own property), with strings as values.
\<close>

definition truthy :: "string option \<Rightarrow> bool" where
  "truthy v = (case v of None \<Rightarrow> False | Some s \<Rightarrow> s \<noteq> [])"

definition js_or :: "string option \<Rightarrow> string option \<Rightarrow> string option" where
  \<comment> \<open>\<^verbatim>\<open>a || b\<close>\<close>
  "js_or a b = (if truthy a then a else b)"

definition startsWith :: "string \<Rightarrow> string \<Rightarrow> bool" where
  "startsWith s p = prefix p s"

definition indexOf :: "string \<Rightarrow> char \<Rightarrow> int" where
  "indexOf s c = (if c \<in> set s then int (length (takeWhile (\<lambda>x. x \<noteq> c) s)) else - 1)"

definition substring :: "string \<Rightarrow> int \<Rightarrow> string" where
  \<comment> \<open>\<^verbatim>\<open>s.substring(i)\<close>: a negative start counts as 0, a start past the end gives the empty string\<close>
  "substring s i = drop (nat (max i 0)) s"

definition array_includes :: "string list \<Rightarrow> string \<Rightarrow> bool" where
  "array_includes xs x = (x \<in> set xs)"

text \<open>
  A property read \<^verbatim>\<open>o[k]\<close> on a plain object finds the object's own property, and
  otherwise the property of that name that every plain object inherits from
  \<^verbatim>\<open>Object.prototype\<close>: a built-in function, or for \<^verbatim>\<open>__proto__\<close> the prototype itself.
  Such a value is truthy, and wherever the source uses the result of the read (a template
  literal, \<^verbatim>\<open>classList.add\<close>, \<^verbatim>\<open>setAttribute\<close>) it is converted to a string, so the
  read is modelled by the string it ends up as. The text of a built-in function is left to
  the implementation within the grammar \<^verbatim>\<open>function name() { [native code] }\<close>; the
  spacing here is that of V8 and JavaScriptCore. Every implementation's text is non-empty
  and has white space in it.
\<close>

definition objectPrototypeKeys :: "string list" where
  "objectPrototypeKeys =
     [''constructor'', ''__defineGetter__'', ''__defineSetter__'', ''hasOwnProperty'',
      ''__lookupGetter__'', ''__lookupSetter__'', ''isPrototypeOf'', ''propertyIsEnumerable'',
      ''toString'', ''valueOf'', ''__proto__'', ''toLocaleString'']"

definition nativeText :: "string \<Rightarrow> string" where
  \<comment> \<open>\<^verbatim>\<open>String(Object.prototype[k])\<close>; the property \<^verbatim>\<open>constructor\<close> is the function \<^verbatim>\<open>Object\<close>\<close>
  "nativeText k =
     (if k = ''__proto__'' then ''[object Object]''
      else ''function '' @ (if k = ''constructor'' then ''Object'' else k) @ ''() { [native code] }'')"

definition getProperty :: "(string \<times> string) list \<Rightarrow> string \<Rightarrow> string option" where
  \<comment> \<open>\<^verbatim>\<open>o[k]\<close>, as the string it is used as; \<open>None\<close> is \<^verbatim>\<open>undefined\<close>\<close>
  "getProperty v k =
     (case map_of v k of
        Some x \<Rightarrow> Some x
      | None \<Rightarrow> if k \<in> set objectPrototypeKeys then Some (nativeText k) else None)"

datatype exn = SecurityError | QuotaExceededError | SyntaxError | InvalidCharacterError
  | ReferenceError

section \<open>The browser: storage, media query\<close>

text \<open>
  \<^verbatim>\<open>localStorage\<close> holds its entries, whether any access is refused (\<open>denied\<close>: touching
  \<^verbatim>\<open>window.localStorage\<close> throws a SecurityError), whether a write is refused
  (\<open>full\<close>: \<^verbatim>\<open>setItem\<close> throws a QuotaExceededError), and the list of the accesses
  that reached it, oldest first.
\<close>

datatype access = GetItem string | SetItem string string

record localStorage =
  items :: "string \<Rightarrow> string option"
  denied :: bool
  full :: bool
  accesses :: "access list"

definition getItem :: "string \<Rightarrow> localStorage \<Rightarrow> (exn + string option) \<times> localStorage" where
  "getItem k ls =
     (if denied ls then (Inl SecurityError, ls)
      else (Inr (items ls k), ls\<lparr>accesses := accesses ls @ [GetItem k]\<rparr>))"

definition setItem :: "string \<Rightarrow> string \<Rightarrow> localStorage \<Rightarrow> exn option \<times> localStorage" where
  "setItem k v ls =
     (if denied ls then (Some SecurityError, ls)
      else if full ls then (Some QuotaExceededError, ls\<lparr>accesses := accesses ls @ [SetItem k v]\<rparr>)
      else (None, ls\<lparr>items := (items ls)(k \<mapsto> v), accesses := accesses ls @ [SetItem k v]\<rparr>))"

record MediaQueryList =
  media :: string
  matches :: bool

definition colorSchemes :: "string list" where
  "colorSchemes = [''light'', ''dark'']"

definition MEDIA :: string where
  "MEDIA = ''(prefers-color-scheme: dark)''"

definition defaultThemes :: "string list" where
  "defaultThemes = [''light'', ''dark'']"

section \<open>Props\<close>

text \<open>
  \<open>ThemeProviderProps\<close> as the component receives them, every prop optional, and \<open>props\<close>
  after the defaults of the destructuring pattern of \<^verbatim>\<open>Theme\<close> have been filled in.
  The type is declared in a file of type declarations only; the fields are the props that
  \<^verbatim>\<open>Theme\<close> destructures and uses (\<^verbatim>\<open>children\<close> is the list of child nodes in the
  component tree further down, \<^verbatim>\<open>nonce\<close> only reaches the script tag).
  The prop \<^verbatim>\<open>value\<close> is the field \<open>value_map\<close>.
\<close>

record ThemeProviderProps =
  forcedTheme_opt :: "string option"
  disableTransitionOnChange_opt :: "bool option"
  enableSystem_opt :: "bool option"
  enableMultipleSystemThemes_opt :: "bool option"
  enableColorScheme_opt :: "bool option"
  storageKey_opt :: "string option"
  themes_opt :: "string list option"
  defaultTheme_opt :: "string option"
  attribute_opt :: "string option"
  value_opt :: "(string \<times> string) list option"

record props =
  forcedTheme :: "string option"
  disableTransitionOnChange :: bool
  enableSystem :: bool
  enableMultipleSystemThemes :: bool
  enableColorScheme :: bool
  storageKey :: string
  themes :: "string list"
  defaultTheme :: string
  attribute :: string
  value_map :: "(string \<times> string) list option"

definition orDefault :: "'a option \<Rightarrow> 'a \<Rightarrow> 'a" where
  "orDefault v d = (case v of None \<Rightarrow> d | Some x \<Rightarrow> x)"

definition destructure :: "ThemeProviderProps \<Rightarrow> props" where
  "destructure r =
     (let es = orDefault (enableSystem_opt r) True in
      \<lparr> forcedTheme = forcedTheme_opt r,
        disableTransitionOnChange = orDefault (disableTransitionOnChange_opt r) False,
        enableSystem = es,
        enableMultipleSystemThemes = orDefault (enableMultipleSystemThemes_opt r) False,
        enableColorScheme = orDefault (enableColorScheme_opt r) True,
        storageKey = orDefault (storageKey_opt r) ''theme'',
        themes = orDefault (themes_opt r) defaultThemes,
        defaultTheme = orDefault (defaultTheme_opt r) (if es then ''system'' else ''light''),
        attribute = orDefault (attribute_opt r) ''data-theme'',
        value_map = value_opt r \<rparr>)"

definition noProps :: ThemeProviderProps where
  "noProps = \<lparr> forcedTheme_opt = None, disableTransitionOnChange_opt = None,
      enableSystem_opt = None, enableMultipleSystemThemes_opt = None,
      enableColorScheme_opt = None, storageKey_opt = None, themes_opt = None,
      defaultTheme_opt = None, attribute_opt = None, value_opt = None \<rparr>"

section \<open>Helpers: getSystemTheme, getTheme, getResolvedTheme, getColorScheme\<close>

definition getSystemTheme :: "MediaQueryList \<Rightarrow> MediaQueryList option \<Rightarrow> string" where
  \<comment> \<open>the first argument is what \<^verbatim>\<open>window.matchMedia(MEDIA)\<close> returns\<close>
  "getSystemTheme mql e =
     (let e' = (case e of None \<Rightarrow> mql | Some x \<Rightarrow> x);
          isDark = matches e'
      in if isDark then ''dark'' else ''light'')"

definition getTheme ::
  "bool \<Rightarrow> string \<Rightarrow> string option \<Rightarrow> localStorage \<Rightarrow> (exn + string option) \<times> localStorage" where
  \<comment> \<open>the first argument is \<^verbatim>\<open>isServer\<close>; the result is \<open>Inl\<close> when an exception leaves the function\<close>
  "getTheme isServer k fallback ls =
     (if isServer then (Inr None, ls)
      else
        (case getItem k ls of
           (Inl e, ls') \<Rightarrow> (Inr (js_or None fallback), ls')
         | (Inr v, ls') \<Rightarrow> (Inr (js_or (js_or v None) fallback), ls')))"

definition getResolvedTheme ::
  "bool \<Rightarrow> MediaQueryList \<Rightarrow> string \<Rightarrow> string option \<Rightarrow> bool \<Rightarrow> localStorage
     \<Rightarrow> (exn + string option) \<times> localStorage" where
  "getResolvedTheme isServer mql k fallback enableMultiple ls =
     (case getTheme isServer k fallback ls of
        (Inl e, ls') \<Rightarrow> (Inl e, ls')
      | (Inr theme, ls') \<Rightarrow>
          (case theme of
             None \<Rightarrow> (Inr None, ls')
           | Some t \<Rightarrow>
               if t = [] then (Inr None, ls')
               else if t = ''system'' then (Inr (Some (getSystemTheme mql None)), ls')
               else if enableMultiple \<and> startsWith t ''system-''
                 then (Inr (Some (getSystemTheme mql None @ substring t 6)), ls')
               else (Inr (Some t), ls')))"

definition getColorScheme :: "string \<Rightarrow> string option \<Rightarrow> string option" where
  "getColorScheme t fallback =
     (if t = ''light'' \<or> startsWith t ''light-'' then Some ''light''
      else if t = ''dark'' \<or> startsWith t ''dark-'' then Some ''dark''
      else if array_includes colorSchemes t then Some t else fallback)"

section \<open>The document root\<close>

text \<open>
  What the provider touches of \<^verbatim>\<open>document\<close>: the class tokens of the root element (in
  order, each once), its attributes, the \<^verbatim>\<open>color-scheme\<close> of its inline style (empty when
  unset), the \<^verbatim>\<open>style\<close> elements that \<^verbatim>\<open>disableAnimation\<close> appended to the head, and
  the timers that will each remove one of them. In a browser the attributes \<open>class\<close> and
  \<open>style\<close> are views of the class list and of the inline style; here \<open>attributes\<close>
  stands for the other attributes, and the source itself routes \<open>class\<close> to the class list.
  Attribute names are taken as the browser normalises them (lower case in an HTML document).

  The methods of \<^verbatim>\<open>DOMTokenList\<close> throw a SyntaxError on an empty token and an
  InvalidCharacterError on a token with ASCII whitespace, before they change anything;
  \<^verbatim>\<open>setAttribute\<close> throws an InvalidCharacterError on a name that is empty or has ASCII
  whitespace, NUL, \<open>/\<close>, \<open>=\<close> or \<open>>\<close>.
\<close>

record dom =
  classList :: "string list"
  attributes :: "string \<Rightarrow> string option"
  colorScheme :: string
  headStyles :: nat
  removalTimers :: nat

definition asciiWhitespace :: "char set" where
  "asciiWhitespace = {CHR 0x09, CHR 0x0A, CHR 0x0C, CHR 0x0D, CHR 0x20}"

definition tokenError :: "string \<Rightarrow> exn option" where
  "tokenError t =
     (if t = [] then Some SyntaxError
      else if set t \<inter> asciiWhitespace \<noteq> {} then Some InvalidCharacterError
      else None)"

fun tokensError :: "string list \<Rightarrow> exn option" where
  "tokensError [] = None"
| "tokensError (t # ts) = (case tokenError t of Some e \<Rightarrow> Some e | None \<Rightarrow> tokensError ts)"

definition classList_remove :: "string list \<Rightarrow> dom \<Rightarrow> exn option \<times> dom" where
  "classList_remove ts d =
     (case tokensError ts of
        Some e \<Rightarrow> (Some e, d)
      | None \<Rightarrow> (None, d\<lparr>classList := filter (\<lambda>c. c \<notin> set ts) (classList d)\<rparr>))"

definition classList_add :: "string \<Rightarrow> dom \<Rightarrow> exn option \<times> dom" where
  "classList_add t d =
     (case tokenError t of
        Some e \<Rightarrow> (Some e, d)
      | None \<Rightarrow>
          (None, d\<lparr>classList := (if t \<in> set (classList d) then classList d
                                  else classList d @ [t])\<rparr>))"

definition validAttributeName :: "string \<Rightarrow> bool" where
  "validAttributeName a =
     (a \<noteq> [] \<and> set a \<inter> (asciiWhitespace \<union> {CHR 0x00, CHR ''/'', CHR ''='', CHR ''>''}) = {})"

definition setAttribute :: "string \<Rightarrow> string \<Rightarrow> dom \<Rightarrow> exn option \<times> dom" where
  "setAttribute a v d =
     (if validAttributeName a then (None, d\<lparr>attributes := (attributes d)(a \<mapsto> v)\<rparr>)
      else (Some InvalidCharacterError, d))"

definition removeAttribute :: "string \<Rightarrow> dom \<Rightarrow> exn option \<times> dom" where
  "removeAttribute a d = (None, d\<lparr>attributes := (attributes d)(a := None)\<rparr>)"

definition set_colorScheme :: "string option \<Rightarrow> dom \<Rightarrow> dom" where
  \<comment> \<open>\<^verbatim>\<open>d.style.colorScheme = v\<close>; assigning \<^verbatim>\<open>null\<close> removes the declaration\<close>
  "set_colorScheme v d = d\<lparr>colorScheme := (case v of None \<Rightarrow> [] | Some s \<Rightarrow> s)\<rparr>"

definition andThen :: "exn option \<times> 's \<Rightarrow> ('s \<Rightarrow> exn option \<times> 's) \<Rightarrow> exn option \<times> 's" where
  \<comment> \<open>statement sequencing: a thrown exception skips what follows\<close>
  "andThen r f = (case r of (Some e, s) \<Rightarrow> (Some e, s) | (None, s) \<Rightarrow> f s)"

definition disableAnimation :: "dom \<Rightarrow> dom" where
  "disableAnimation d = d\<lparr>headStyles := headStyles d + 1\<rparr>"

definition enable :: "dom \<Rightarrow> dom" where
  \<comment> \<open>the function \<^verbatim>\<open>disableAnimation\<close> returns: it sets the timer that removes the style element\<close>
  "enable d = d\<lparr>removalTimers := removalTimers d + 1\<rparr>"

section \<open>The provider: state, applyTheme, setTheme and the event handlers\<close>

record theme_state =
  theme :: "string option"
  resolvedTheme :: "string option"

record world =
  state :: theme_state
  storage :: localStorage
  darkQuery :: MediaQueryList
  root :: dom

definition attrs :: "props \<Rightarrow> string list" where
  \<comment> \<open>\<^verbatim>\<open>value ? Object.values(value) : themes\<close>\<close>
  "attrs p = (case value_map p of Some v \<Rightarrow> map snd v | None \<Rightarrow> themes p)"

definition defaultColorScheme :: "props \<Rightarrow> string option" where
  "defaultColorScheme p = getColorScheme (defaultTheme p) None"

definition resolve :: "props \<Rightarrow> MediaQueryList \<Rightarrow> string \<Rightarrow> string" where
  \<comment> \<open>the variable \<^verbatim>\<open>resolved\<close> of \<^verbatim>\<open>applyTheme\<close>, for a truthy theme\<close>
  "resolve p mql t =
     (if enableSystem p then
        (if t = ''system'' then getSystemTheme mql None
         else if enableMultipleSystemThemes p \<and> startsWith t ''system-''
           then getSystemTheme mql None @ substring t 6
         else t)
      else t)"

definition themeName :: "props \<Rightarrow> string \<Rightarrow> string option" where
  \<comment> \<open>\<^verbatim>\<open>value ? value[resolved] : resolved\<close>, as the string the DOM methods receive\<close>
  "themeName p resolved =
     (case value_map p of Some v \<Rightarrow> getProperty v resolved | None \<Rightarrow> Some resolved)"

definition applyTheme :: "props \<Rightarrow> MediaQueryList \<Rightarrow> string option \<Rightarrow> dom \<Rightarrow> exn option \<times> dom" where
  "applyTheme p mql th d =
     (case th of
        None \<Rightarrow> (None, d)
      | Some t \<Rightarrow>
          if t = [] then (None, d)
          else
            (let resolved = resolve p mql t;
                 name = themeName p resolved;
                 d1 = (if disableTransitionOnChange p then disableAnimation d else d)
             in andThen
                  (if attribute p = ''class'' then
                     andThen (classList_remove (attrs p) d1)
                       (\<lambda>d2. case name of
                                Some n \<Rightarrow> if n \<noteq> [] then classList_add n d2 else (None, d2)
                              | None \<Rightarrow> (None, d2))
                   else
                     (case name of
                        Some n \<Rightarrow> if n \<noteq> [] then setAttribute (attribute p) n d1
                                  else removeAttribute (attribute p) d1
                      | None \<Rightarrow> removeAttribute (attribute p) d1))
                  (\<lambda>d3. (None,
                     (let d4 = (if enableColorScheme p
                                then set_colorScheme (getColorScheme resolved (defaultColorScheme p)) d3
                                else d3)
                      in if disableTransitionOnChange p then enable d4 else d4)))))"

definition setTheme :: "props \<Rightarrow> string \<Rightarrow> world \<Rightarrow> exn option \<times> world" where
  "setTheme p t w =
     (let st = (state w)\<lparr>theme := Some t\<rparr> in
      case setItem (storageKey p) t (storage w) of
        (None, ls') \<Rightarrow> (None, w\<lparr>state := st, storage := ls'\<rparr>)
      | (Some e, ls') \<Rightarrow> (None, w\<lparr>state := st, storage := ls'\<rparr>))"

record StorageEvent =
  key :: "string option"
  newValue :: "string option"

definition handleStorage :: "props \<Rightarrow> StorageEvent \<Rightarrow> world \<Rightarrow> exn option \<times> world" where
  "handleStorage p e w =
     (if key e \<noteq> Some (storageKey p) then (None, w)
      else
        (let t = (case js_or (newValue e) (Some (defaultTheme p)) of
                    Some s \<Rightarrow> s | None \<Rightarrow> defaultTheme p)
         in setTheme p t w))"

definition isCompound :: "props \<Rightarrow> string option \<Rightarrow> bool" where
  \<comment> \<open>\<^verbatim>\<open>enableMultipleSystemThemes && theme?.startsWith('system-')\<close>\<close>
  "isCompound p th =
     (enableMultipleSystemThemes p \<and> (case th of None \<Rightarrow> False | Some t \<Rightarrow> startsWith t ''system-''))"

definition handleMediaQuery :: "props \<Rightarrow> MediaQueryList \<Rightarrow> world \<Rightarrow> exn option \<times> world" where
  "handleMediaQuery p e w =
     (let th = theme (state w);
          systemTheme = getSystemTheme (darkQuery w) (Some e);
          resolved = (if isCompound p th
                      then getSystemTheme (darkQuery w) None @ substring (the th) 6
                      else systemTheme);
          w1 = w\<lparr>state := (state w)\<lparr>resolvedTheme := Some resolved\<rparr>\<rparr>
      in if \<not> truthy (forcedTheme p) \<and> enableSystem p \<and> (th = Some ''system'' \<or> isCompound p th)
         then (case applyTheme p (darkQuery w) th (root w1) of
                 (x, d) \<Rightarrow> (x, w1\<lparr>root := d\<rparr>))
         else (None, w1))"

definition themeEffect :: "props \<Rightarrow> world \<Rightarrow> exn option \<times> world" where
  \<comment> \<open>the effect on \<^verbatim>\<open>[forcedTheme, theme]\<close>: \<^verbatim>\<open>applyTheme(forcedTheme ?? theme)\<close>\<close>
  "themeEffect p w =
     (case applyTheme p (darkQuery w)
             (case forcedTheme p of Some f \<Rightarrow> Some f | None \<Rightarrow> theme (state w)) (root w) of
        (x, d) \<Rightarrow> (x, w\<lparr>root := d\<rparr>))"

section \<open>The published themes\<close>

text \<open>
  A JavaScript \<^verbatim>\<open>Set\<close> of strings is the list of its members in insertion order;
  the record \<^verbatim>\<open>maybeSystemThemes\<close> is an association list in insertion order whose
  values are the two optional flags, absent read as false.
\<close>

definition set_add :: "string list \<Rightarrow> string \<Rightarrow> string list" where
  "set_add s x = (if x \<in> set s then s else s @ [x])"

definition new_Set :: "string list \<Rightarrow> string list" where
  "new_Set xs = foldl set_add [] xs"

record flags =
  light :: bool
  dark :: bool

definition themeKey :: "string \<Rightarrow> string option" where
  "themeKey t =
     (let k0 = (if t = ''light'' \<or> t = ''dark'' then Some [] else None)
      in if startsWith t ''light-'' \<or> startsWith t ''dark-''
         then Some (substring t (indexOf t CHR ''-''))
         else k0)"

definition noteTheme :: "(string \<times> flags) list \<Rightarrow> string \<Rightarrow> (string \<times> flags) list" where
  \<comment> \<open>one round of the loop over \<^verbatim>\<open>themes\<close>\<close>
  "noteTheme m t =
     (case themeKey t of
        None \<Rightarrow> m
      | Some k \<Rightarrow>
          (let val = (case map_of m k of None \<Rightarrow> \<lparr>light = False, dark = False\<rparr> | Some v \<Rightarrow> v);
               val1 = (if t = ''light'' \<or> startsWith t ''light-'' then val\<lparr>light := True\<rparr> else val);
               val2 = (if t = ''dark'' \<or> startsWith t ''dark-'' then val1\<lparr>dark := True\<rparr> else val1)
           in AList.update k val2 m))"

definition maybeSystemThemes :: "string list \<Rightarrow> (string \<times> flags) list" where
  "maybeSystemThemes ts = foldl noteTheme [] ts"

definition systemThemes :: "string list \<Rightarrow> string list" where
  "systemThemes ts = map fst (filter (\<lambda>(k, v). light v \<and> dark v) (maybeSystemThemes ts))"

definition providerThemes :: "props \<Rightarrow> string list" where
  "providerThemes p =
     (if \<not> enableSystem p then themes p
      else
        (let themeSet = set_add (new_Set (themes p)) ''system''
         in if enableMultipleSystemThemes p
            then foldl set_add themeSet (map (\<lambda>k. ''system'' @ k) (systemThemes (themes p)))
            else themeSet))"

section \<open>Context and useTheme\<close>

text \<open>
  \<open>UseThemeProps\<close> is what \<^verbatim>\<open>useTheme\<close> hands to a consumer. Its declaration is in a
  file of type declarations only; the fields are those the provider fills in.
  \<open>setTheme\<close> acts on the world and may let an exception out.
\<close>

record UseThemeProps =
  ctx_theme :: "string option"
  ctx_setTheme :: "string \<Rightarrow> world \<Rightarrow> exn option \<times> world"
  ctx_forcedTheme :: "string option"
  ctx_resolvedTheme :: "string option"
  ctx_systemTheme :: "string option"
  ctx_themes :: "string list"

definition defaultContext :: UseThemeProps where
  "defaultContext =
     \<lparr> ctx_theme = None, ctx_setTheme = (\<lambda>_ w. (None, w)), ctx_forcedTheme = None,
       ctx_resolvedTheme = None, ctx_systemTheme = None, ctx_themes = [] \<rparr>"

definition useTheme :: "UseThemeProps option \<Rightarrow> UseThemeProps" where
  \<comment> \<open>the argument is what \<^verbatim>\<open>useContext(ThemeContext)\<close> returns: \<open>None\<close> outside every provider\<close>
  "useTheme context = (case context of None \<Rightarrow> defaultContext | Some c \<Rightarrow> c)"

section \<open>ThemeScript: the text of the inline script\<close>

text \<open>
  The generator builds the script by string interpolation. \<open>quoted s\<close> is
  \<^verbatim>\<open>'${s}'\<close>, \<open>join\<close> is \<^verbatim>\<open>Array.prototype.join\<close>, and \<open>JSON_stringify\<close> is
  \<^verbatim>\<open>JSON.stringify\<close> on an object whose values are strings.
\<close>

definition quoted :: "string \<Rightarrow> string" where
  "quoted s = [CHR 0x27] @ s @ [CHR 0x27]"

fun join :: "string \<Rightarrow> string list \<Rightarrow> string" where
  "join sep [] = []"
| "join sep [x] = x"
| "join sep (x # y # ys) = x @ sep @ join sep (y # ys)"

definition hexDigit :: "nat \<Rightarrow> char" where
  "hexDigit n = ''0123456789abcdef'' ! (n mod 16)"

definition jsonChar :: "char \<Rightarrow> string" where
  "jsonChar c =
     (if c = CHR 0x22 then [CHR 0x5C, CHR 0x22]
      else if c = CHR 0x5C then [CHR 0x5C, CHR 0x5C]
      else if c = CHR 0x08 then [CHR 0x5C, CHR ''b'']
      else if c = CHR 0x09 then [CHR 0x5C, CHR ''t'']
      else if c = CHR 0x0A then [CHR 0x5C, CHR ''n'']
      else if c = CHR 0x0C then [CHR 0x5C, CHR ''f'']
      else if c = CHR 0x0D then [CHR 0x5C, CHR ''r'']
      else if (of_char c :: nat) < 32
        then [CHR 0x5C, CHR ''u'', CHR ''0'', CHR ''0'',
              hexDigit (of_char c div 16), hexDigit (of_char c)]
      else [c])"

definition jsonString :: "string \<Rightarrow> string" where
  "jsonString s = [CHR 0x22] @ concat (map jsonChar s) @ [CHR 0x22]"

definition JSON_stringify :: "(string \<times> string) list \<Rightarrow> string" where
  "JSON_stringify v =
     ''{'' @ join '','' (map (\<lambda>(k, x). jsonString k @ '':'' @ jsonString x) v) @ ''}''"

definition defaultSystem :: "props \<Rightarrow> bool" where
  "defaultSystem p = (defaultTheme p = ''system'')"

definition boolText :: "bool \<Rightarrow> string" where
  "boolText b = (if b then ''true'' else ''false'')"

definition optimization :: "props \<Rightarrow> string" where
  "optimization p =
     (if attribute p = ''class'' then
        (let removeClasses = ''c.remove('' @ join '','' (map quoted (attrs p)) @ '')''
         in ''var d=document.documentElement,c=d.classList;'' @ removeClasses @ '';'')
      else ''var d=document.documentElement,n='' @ quoted (attribute p)
             @ '',s='' @ quoted ''setAttribute'' @ '';'')"

definition fallbackColorScheme :: "props \<Rightarrow> string" where
  "fallbackColorScheme p =
     (if \<not> enableColorScheme p then []
      else if array_includes colorSchemes (defaultTheme p)
        then ''if(e==='light'||e==='dark'||!e)d.style.colorScheme=e||'' @ quoted (defaultTheme p)
      else ''if(e==='light'||e==='dark')d.style.colorScheme=e'')"

definition updateDOM :: "props \<Rightarrow> string \<Rightarrow> bool \<Rightarrow> bool \<Rightarrow> string" where
  "updateDOM p name literal setColorScheme =
     (let resolvedName = (case value_map p of Some v \<Rightarrow> getProperty v name | None \<Rightarrow> Some name);
          val = (if literal then name @ ''|| '' @ [CHR 0x27, CHR 0x27]
                 else quoted (case resolvedName of Some r \<Rightarrow> r | None \<Rightarrow> ''undefined''));
          text = (if enableColorScheme p \<and> setColorScheme \<and> \<not> literal
                     \<and> array_includes colorSchemes name
                  then ''d.style.colorScheme = '' @ quoted name @ '';'' else [])
      in if attribute p = ''class'' then
           (if literal \<or> truthy resolvedName then text @ ''c.add('' @ val @ '')''
            else text @ ''null'')
         else
           (if truthy resolvedName then text @ ''d[s](n,'' @ val @ '')'' else text))"

definition xDeclaration :: "props \<Rightarrow> string" where
  \<comment> \<open>\<^verbatim>\<open>value ? `var x=${JSON.stringify(value)};` : ''\<close>\<close>
  "xDeclaration p = (case value_map p of Some v \<Rightarrow> ''var x='' @ JSON_stringify v @ '';'' | None \<Rightarrow> [])"

definition storedName :: "props \<Rightarrow> string" where
  \<comment> \<open>\<^verbatim>\<open>value ? `x[e]` : 'e'\<close>\<close>
  "storedName p = (case value_map p of Some v \<Rightarrow> ''x[e]'' | None \<Rightarrow> ''e'')"

definition scriptSrc :: "props \<Rightarrow> string" where
  "scriptSrc p =
     (if truthy (forcedTheme p) then
        ''!function(){'' @ optimization p @ updateDOM p (the (forcedTheme p)) False True @ ''}()''
      else if enableSystem p then
        ''!function(){try{'' @ optimization p @ ''var e=localStorage.getItem(''
        @ quoted (storageKey p) @ '');if('system'===e||(!e&&'' @ boolText (defaultSystem p)
        @ '')){var t='' @ quoted MEDIA @ '',m=window.matchMedia(t);if(m.media!==t||m.matches){''
        @ updateDOM p ''dark'' False True @ ''}else{'' @ updateDOM p ''light'' False True
        @ ''}}else if(e){'' @ xDeclaration p @ updateDOM p (storedName p) True True @ ''}''
        @ (if \<not> defaultSystem p then ''else{'' @ updateDOM p (defaultTheme p) False False @ ''}''
           else [])
        @ fallbackColorScheme p @ ''}catch(e){}}()''
      else
        ''!function(){try{'' @ optimization p @ ''var e=localStorage.getItem(''
        @ quoted (storageKey p) @ '');if(e){'' @ xDeclaration p
        @ updateDOM p (storedName p) True True @ ''}else{''
        @ updateDOM p (defaultTheme p) False False @ '';}'' @ fallbackColorScheme p
        @ ''}catch(t){}}();'')"

section \<open>ThemeScript: the statements of the inline script and what they do\<close>

text \<open>
  The script is text, and what it does when the browser runs it is a property of the
  statements that text denotes. The statements the generator can emit are collected in
  the types below, each with the text it stands for (\<open>render\<close>) and with its effect
  on the browser (\<open>exec\<close>, \<open>runScript\<close>). \<open>script_of\<close> builds the statements from the
  props; that its text is \<open>scriptSrc\<close>, character for character, is proved below.
  The text denotes these statements as long as the interpolated strings (storage key,
  attribute, theme names, values) contain no quote, backslash or line break; the generator
  escapes none of them.
\<close>

datatype jsexpr =
    Quoted string         \<comment> \<open>\<^verbatim>\<open>'text'\<close>\<close>
  | StoredOrEmpty         \<comment> \<open>\<^verbatim>\<open>e|| ''\<close>\<close>
  | MappedOrEmpty         \<comment> \<open>\<^verbatim>\<open>x[e]|| ''\<close>\<close>

datatype js_write =
    ClassAdd jsexpr       \<comment> \<open>\<^verbatim>\<open>c.add(...)\<close>\<close>
  | NullStatement         \<comment> \<open>\<^verbatim>\<open>null\<close>\<close>
  | SetAttr jsexpr        \<comment> \<open>\<^verbatim>\<open>d[s](n,...)\<close>\<close>
  | NoStatement           \<comment> \<open>nothing emitted\<close>

type_synonym dom_update = "string option \<times> js_write"
  \<comment> \<open>what one call of \<^verbatim>\<open>updateDOM\<close> emits: an optional
     \<^verbatim>\<open>d.style.colorScheme = '...';\<close> and then the write\<close>

datatype prelude =
    RemoveClasses "string list"   \<comment> \<open>\<^verbatim>\<open>var d=...,c=d.classList;c.remove(...);\<close>\<close>
  | AttributeName string          \<comment> \<open>\<^verbatim>\<open>var d=...,n='...',s='setAttribute';\<close>\<close>

datatype fallback =
    NoFallback
  | FallbackOrDefault string      \<comment> \<open>\<^verbatim>\<open>if(e==='light'||e==='dark'||!e)d.style.colorScheme=e||'...'\<close>\<close>
  | FallbackStored                \<comment> \<open>\<^verbatim>\<open>if(e==='light'||e==='dark')d.style.colorScheme=e\<close>\<close>

datatype script =
    Forced prelude dom_update
  | WithSystem prelude string bool dom_update dom_update
      "(string \<times> string) list option" dom_update "dom_update option" fallback
    \<comment> \<open>prelude, storage key, defaultSystem, update for dark, update for light,
       declaration of x, update for a stored preference, update for the default theme, fallback\<close>
  | WithoutSystem prelude string "(string \<times> string) list option" dom_update dom_update fallback
    \<comment> \<open>prelude, storage key, declaration of x, update for a stored preference,
       update for the default theme, fallback\<close>

subsection \<open>The text of the statements\<close>

definition renderExpr :: "jsexpr \<Rightarrow> string" where
  "renderExpr ex =
     (case ex of
        Quoted t \<Rightarrow> quoted t
      | StoredOrEmpty \<Rightarrow> ''e|| '' @ [CHR 0x27, CHR 0x27]
      | MappedOrEmpty \<Rightarrow> ''x[e]|| '' @ [CHR 0x27, CHR 0x27])"

definition renderWrite :: "js_write \<Rightarrow> string" where
  "renderWrite w =
     (case w of
        ClassAdd ex \<Rightarrow> ''c.add('' @ renderExpr ex @ '')''
      | NullStatement \<Rightarrow> ''null''
      | SetAttr ex \<Rightarrow> ''d[s](n,'' @ renderExpr ex @ '')''
      | NoStatement \<Rightarrow> [])"

definition renderUpdate :: "dom_update \<Rightarrow> string" where
  "renderUpdate u =
     (case fst u of
        Some c \<Rightarrow> ''d.style.colorScheme = '' @ quoted c @ '';''
      | None \<Rightarrow> []) @ renderWrite (snd u)"

definition renderPrelude :: "prelude \<Rightarrow> string" where
  "renderPrelude pre =
     (case pre of
        RemoveClasses ts \<Rightarrow>
          ''var d=document.documentElement,c=d.classList;''
          @ ''c.remove('' @ join '','' (map quoted ts) @ '')'' @ '';''
      | AttributeName a \<Rightarrow>
          ''var d=document.documentElement,n='' @ quoted a
          @ '',s='' @ quoted ''setAttribute'' @ '';'')"

definition renderFallback :: "fallback \<Rightarrow> string" where
  "renderFallback fb =
     (case fb of
        NoFallback \<Rightarrow> []
      | FallbackOrDefault dt \<Rightarrow>
          ''if(e==='light'||e==='dark'||!e)d.style.colorScheme=e||'' @ quoted dt
      | FallbackStored \<Rightarrow> ''if(e==='light'||e==='dark')d.style.colorScheme=e'')"

definition renderX :: "(string \<times> string) list option \<Rightarrow> string" where
  "renderX x = (case x of Some v \<Rightarrow> ''var x='' @ JSON_stringify v @ '';'' | None \<Rightarrow> [])"

definition renderScript :: "script \<Rightarrow> string" where
  "renderScript sc =
     (case sc of
        Forced pre u \<Rightarrow> ''!function(){'' @ renderPrelude pre @ renderUpdate u @ ''}()''
      | WithSystem pre k ds udark ulight x ustored udefault fb \<Rightarrow>
          ''!function(){try{'' @ renderPrelude pre @ ''var e=localStorage.getItem(''
          @ quoted k @ '');if('system'===e||(!e&&'' @ boolText ds
          @ '')){var t='' @ quoted MEDIA @ '',m=window.matchMedia(t);if(m.media!==t||m.matches){''
          @ renderUpdate udark @ ''}else{'' @ renderUpdate ulight
          @ ''}}else if(e){'' @ renderX x @ renderUpdate ustored @ ''}''
          @ (case udefault of Some u \<Rightarrow> ''else{'' @ renderUpdate u @ ''}'' | None \<Rightarrow> [])
          @ renderFallback fb @ ''}catch(e){}}()''
      | WithoutSystem pre k x ustored udefault fb \<Rightarrow>
          ''!function(){try{'' @ renderPrelude pre @ ''var e=localStorage.getItem(''
          @ quoted k @ '');if(e){'' @ renderX x @ renderUpdate ustored @ ''}else{''
          @ renderUpdate udefault @ '';}'' @ renderFallback fb @ ''}catch(t){}}();'')"

subsection \<open>The statements the generator emits\<close>

definition updateNamed :: "props \<Rightarrow> string \<Rightarrow> bool \<Rightarrow> dom_update" where
  \<comment> \<open>\<^verbatim>\<open>updateDOM(name, false, setColorScheme)\<close>\<close>
  "updateNamed p name setColorScheme =
     (let resolvedName = (case value_map p of Some v \<Rightarrow> getProperty v name | None \<Rightarrow> Some name)
      in (if enableColorScheme p \<and> setColorScheme \<and> array_includes colorSchemes name
          then Some name else None,
          if attribute p = ''class'' then
            (case resolvedName of
               Some r \<Rightarrow> if r \<noteq> [] then ClassAdd (Quoted r) else NullStatement
             | None \<Rightarrow> NullStatement)
          else
            (case resolvedName of
               Some r \<Rightarrow> if r \<noteq> [] then SetAttr (Quoted r) else NoStatement
             | None \<Rightarrow> NoStatement)))"

definition updateStored :: "props \<Rightarrow> dom_update" where
  \<comment> \<open>\<^verbatim>\<open>updateDOM(value ? `x[e]` : 'e', true)\<close>\<close>
  "updateStored p =
     (let resolvedName = (case value_map p of Some v \<Rightarrow> getProperty v ''x[e]'' | None \<Rightarrow> Some ''e'');
          ex = (case value_map p of Some v \<Rightarrow> MappedOrEmpty | None \<Rightarrow> StoredOrEmpty)
      in (None,
          if attribute p = ''class'' then ClassAdd ex
          else if truthy resolvedName then SetAttr ex else NoStatement))"

definition prelude_of :: "props \<Rightarrow> prelude" where
  "prelude_of p =
     (if attribute p = ''class'' then RemoveClasses (attrs p) else AttributeName (attribute p))"

definition fallback_of :: "props \<Rightarrow> fallback" where
  "fallback_of p =
     (if \<not> enableColorScheme p then NoFallback
      else if array_includes colorSchemes (defaultTheme p) then FallbackOrDefault (defaultTheme p)
      else FallbackStored)"

definition script_of :: "props \<Rightarrow> script" where
  "script_of p =
     (if truthy (forcedTheme p) then
        Forced (prelude_of p) (updateNamed p (the (forcedTheme p)) True)
      else if enableSystem p then
        WithSystem (prelude_of p) (storageKey p) (defaultSystem p)
          (updateNamed p ''dark'' True) (updateNamed p ''light'' True)
          (value_map p) (updateStored p)
          (if \<not> defaultSystem p then Some (updateNamed p (defaultTheme p) False) else None)
          (fallback_of p)
      else
        WithoutSystem (prelude_of p) (storageKey p) (value_map p) (updateStored p)
          (updateNamed p (defaultTheme p) False) (fallback_of p))"

subsection \<open>What the statements do\<close>

text \<open>
  The variables of the script: whether \<open>e\<close> is declared and its value (\<open>None\<close> is
  \<^verbatim>\<open>null\<close>), the object \<open>x\<close> when declared, and the prelude, which declares either
  \<open>c\<close> or \<open>n\<close> and \<open>s\<close>. A use of a variable that the script does not declare is a
  ReferenceError.
\<close>

record scope =
  scope_prelude :: prelude
  e_declared :: bool
  e_value :: "string option"
  x_value :: "(string \<times> string) list option"

definition evalExpr :: "scope \<Rightarrow> jsexpr \<Rightarrow> exn + string" where
  "evalExpr sc ex =
     (case ex of
        Quoted t \<Rightarrow> Inr t
      | StoredOrEmpty \<Rightarrow>
          if \<not> e_declared sc then Inl ReferenceError
          else Inr (case e_value sc of Some v \<Rightarrow> v | None \<Rightarrow> [])
      | MappedOrEmpty \<Rightarrow>
          (case x_value sc of
             None \<Rightarrow> Inl ReferenceError
           | Some x \<Rightarrow>
               if \<not> e_declared sc then Inl ReferenceError
               else Inr (case getProperty x (case e_value sc of Some v \<Rightarrow> v | None \<Rightarrow> ''null'') of
                           Some r \<Rightarrow> r | None \<Rightarrow> [])))"

definition execWrite :: "scope \<Rightarrow> js_write \<Rightarrow> dom \<Rightarrow> exn option \<times> dom" where
  "execWrite sc w d =
     (case w of
        ClassAdd ex \<Rightarrow>
          (case scope_prelude sc of
             AttributeName a \<Rightarrow> (Some ReferenceError, d)
           | RemoveClasses ts \<Rightarrow>
               (case evalExpr sc ex of Inl err \<Rightarrow> (Some err, d) | Inr v \<Rightarrow> classList_add v d))
      | NullStatement \<Rightarrow> (None, d)
      | SetAttr ex \<Rightarrow>
          (case scope_prelude sc of
             RemoveClasses ts \<Rightarrow> (Some ReferenceError, d)
           | AttributeName a \<Rightarrow>
               (case evalExpr sc ex of Inl err \<Rightarrow> (Some err, d) | Inr v \<Rightarrow> setAttribute a v d))
      | NoStatement \<Rightarrow> (None, d))"

definition execUpdate :: "scope \<Rightarrow> dom_update \<Rightarrow> dom \<Rightarrow> exn option \<times> dom" where
  "execUpdate sc u d =
     execWrite sc (snd u)
       (case fst u of Some c \<Rightarrow> set_colorScheme (Some c) d | None \<Rightarrow> d)"

definition execPrelude :: "prelude \<Rightarrow> dom \<Rightarrow> exn option \<times> dom" where
  "execPrelude pre d =
     (case pre of RemoveClasses ts \<Rightarrow> classList_remove ts d | AttributeName a \<Rightarrow> (None, d))"

definition execFallback :: "fallback \<Rightarrow> string option \<Rightarrow> dom \<Rightarrow> dom" where
  "execFallback fb e d =
     (case fb of
        NoFallback \<Rightarrow> d
      | FallbackOrDefault dt \<Rightarrow>
          if e = Some ''light'' \<or> e = Some ''dark'' \<or> \<not> truthy e
          then set_colorScheme (if truthy e then e else Some dt) d else d
      | FallbackStored \<Rightarrow>
          if e = Some ''light'' \<or> e = Some ''dark'' then set_colorScheme e d else d)"

definition onRoot :: "(dom \<Rightarrow> exn option \<times> dom) \<Rightarrow> world \<Rightarrow> exn option \<times> world" where
  "onRoot f w = (case f (root w) of (x, d) \<Rightarrow> (x, w\<lparr>root := d\<rparr>))"

definition tryCatch :: "exn option \<times> world \<Rightarrow> exn option \<times> world" where
  \<comment> \<open>\<^verbatim>\<open>try{...}catch(e){}\<close>: what was done stays done, the exception is dropped\<close>
  "tryCatch r = (None, snd r)"

definition readStored :: "string \<Rightarrow> world \<Rightarrow> (string option \<Rightarrow> world \<Rightarrow> exn option \<times> world)
    \<Rightarrow> exn option \<times> world" where
  \<comment> \<open>\<^verbatim>\<open>var e=localStorage.getItem('...');\<close> and the rest of the block\<close>
  "readStored k w rest =
     (case getItem k (storage w) of
        (Inl err, ls) \<Rightarrow> (Some err, w\<lparr>storage := ls\<rparr>)
      | (Inr e, ls) \<Rightarrow> rest e (w\<lparr>storage := ls\<rparr>))"

definition scriptBody :: "script \<Rightarrow> world \<Rightarrow> exn option \<times> world" where
  \<comment> \<open>the statements of the function, those inside \<^verbatim>\<open>try\<close> for the two scripts that have
     one; the exception, if any, is the one that ends them\<close>
  "scriptBody s w =
     (case s of
        Forced pre u \<Rightarrow>
          andThen (onRoot (execPrelude pre) w)
            (onRoot (execUpdate \<lparr>scope_prelude = pre, e_declared = False, e_value = None,
                                  x_value = None\<rparr> u))
      | WithSystem pre k ds udark ulight x ustored udefault fb \<Rightarrow>
          (andThen (onRoot (execPrelude pre) w)
               (\<lambda>w1. readStored k w1
                  (\<lambda>e w2.
                     (let sc = \<lparr>scope_prelude = pre, e_declared = True, e_value = e, x_value = x\<rparr>
                      in andThen
                           (if e = Some ''system'' \<or> (\<not> truthy e \<and> ds) then
                              (if media (darkQuery w2) \<noteq> MEDIA \<or> matches (darkQuery w2)
                               then onRoot (execUpdate sc udark) w2
                               else onRoot (execUpdate sc ulight) w2)
                            else if truthy e then onRoot (execUpdate sc ustored) w2
                            else (case udefault of
                                    Some u \<Rightarrow> onRoot (execUpdate sc u) w2
                                  | None \<Rightarrow> (None, w2)))
                           (\<lambda>w3. (None, w3\<lparr>root := execFallback fb e (root w3)\<rparr>))))))
      | WithoutSystem pre k x ustored udefault fb \<Rightarrow>
          (andThen (onRoot (execPrelude pre) w)
               (\<lambda>w1. readStored k w1
                  (\<lambda>e w2.
                     (let sc = \<lparr>scope_prelude = pre, e_declared = True, e_value = e, x_value = x\<rparr>
                      in andThen
                           (if truthy e then onRoot (execUpdate sc ustored) w2
                            else onRoot (execUpdate sc udefault) w2)
                           (\<lambda>w3. (None, w3\<lparr>root := execFallback fb e (root w3)\<rparr>)))))))"

definition runScript :: "script \<Rightarrow> world \<Rightarrow> exn option \<times> world" where
  \<comment> \<open>the forced script has no \<^verbatim>\<open>try\<close>; the other two catch whatever their statements throw\<close>
  "runScript s w =
     (case s of
        Forced pre u \<Rightarrow> scriptBody s w
      | WithSystem pre k ds udark ulight x ustored udefault fb \<Rightarrow> tryCatch (scriptBody s w)
      | WithoutSystem pre k x ustored udefault fb \<Rightarrow> tryCatch (scriptBody s w))"

definition ThemeScript_run :: "props \<Rightarrow> world \<Rightarrow> exn option \<times> world" where
  \<comment> \<open>the browser running the script that \<^verbatim>\<open>ThemeScript\<close> emitted for these props\<close>
  "ThemeScript_run p w = runScript (script_of p) w"

section \<open>ThemeProvider and the tree it is rendered in\<close>

text \<open>
  The value a \<^verbatim>\<open>Theme\<close> puts into the context, from its props and its state, and the
  state it starts with. \<open>getTheme\<close> and \<open>getResolvedTheme\<close> let no exception out, so the
  \<open>Inl\<close> branches below are never taken.
\<close>

definition providerValue :: "props \<Rightarrow> theme_state \<Rightarrow> UseThemeProps" where
  "providerValue p st =
     \<lparr> ctx_theme = theme st,
       ctx_setTheme = setTheme p,
       ctx_forcedTheme = forcedTheme p,
       ctx_resolvedTheme =
         (if theme st = Some ''system'' \<or> isCompound p (theme st) then resolvedTheme st
          else theme st),
       ctx_systemTheme = (if enableSystem p then resolvedTheme st else None),
       ctx_themes = providerThemes p \<rparr>"

definition initialState :: "bool \<Rightarrow> localStorage \<Rightarrow> MediaQueryList \<Rightarrow> props \<Rightarrow> theme_state" where
  "initialState isServer ls mql p =
     \<lparr> theme =
         (case fst (getTheme isServer (storageKey p) (Some (defaultTheme p)) ls) of
            Inr t \<Rightarrow> t | Inl e \<Rightarrow> None),
       resolvedTheme =
         (case fst (getResolvedTheme isServer mql (storageKey p) (Some (defaultTheme p))
                      (enableMultipleSystemThemes p) ls) of
            Inr t \<Rightarrow> t | Inl e \<Rightarrow> None) \<rparr>"

text \<open>
  A tree of components: a consumer (a component that calls \<^verbatim>\<open>useTheme\<close>), a
  \<^verbatim>\<open>ThemeProvider\<close> with its props and children, or any other element with its children.
  Rendering passes the context down, as React does: a \<^verbatim>\<open>ThemeContext.Provider\<close> sets
  it for its subtree, everything else hands it on. A rendered \<^verbatim>\<open>Theme\<close> is a
  \<open>ThemeInstance\<close>: its props, its state, the text of its script and its rendered children.
\<close>

datatype vnode =
    UseTheme
  | ThemeProviderNode ThemeProviderProps "vnode list"
  | Element string "vnode list"

datatype provider_output = PassThrough "vnode list" | RenderTheme ThemeProviderProps "vnode list"

definition ThemeProvider :: "UseThemeProps option \<Rightarrow> ThemeProviderProps \<Rightarrow> vnode list \<Rightarrow> provider_output" where
  \<comment> \<open>the first argument is what \<^verbatim>\<open>useContext(ThemeContext)\<close> returns\<close>
  "ThemeProvider context rp children =
     (case context of Some c \<Rightarrow> PassThrough children | None \<Rightarrow> RenderTheme rp children)"

datatype rendered =
    Consumer UseThemeProps
  | Fragment "rendered list"
  | ThemeInstance props theme_state string "rendered list"
  | Host string "rendered list"

fun render :: "bool \<Rightarrow> localStorage \<Rightarrow> MediaQueryList \<Rightarrow> UseThemeProps option \<Rightarrow> vnode \<Rightarrow> rendered" where
  "render sv ls mq ctx UseTheme = Consumer (useTheme ctx)"
| "render sv ls mq ctx (Element tag kids) = Host tag (map (render sv ls mq ctx) kids)"
| "render sv ls mq ctx (ThemeProviderNode rp kids) =
     (case ThemeProvider ctx rp kids of
        PassThrough ch \<Rightarrow> Fragment (map (render sv ls mq ctx) kids)
      | RenderTheme rp' ch \<Rightarrow>
          (let p = destructure rp;
               st = initialState sv ls mq p
           in ThemeInstance p st (scriptSrc p)
                (map (render sv ls mq (Some (providerValue p st))) kids)))"

fun instances :: "rendered \<Rightarrow> nat" where
  \<comment> \<open>how many \<^verbatim>\<open>Theme\<close> components (state containers, each with one script) are in the output\<close>
  "instances (Consumer c) = 0"
| "instances (Fragment kids) = sum_list (map instances kids)"
| "instances (ThemeInstance p st sc kids) = 1 + sum_list (map instances kids)"
| "instances (Host tag kids) = sum_list (map instances kids)"

fun observed :: "rendered \<Rightarrow> UseThemeProps set" where
  \<comment> \<open>the contexts that the consumers in the output were given\<close>
  "observed (Consumer c) = {c}"
| "observed (Fragment kids) = \<Union> (set (map observed kids))"
| "observed (ThemeInstance p st sc kids) = \<Union> (set (map observed kids))"
| "observed (Host tag kids) = \<Union> (set (map observed kids))"

fun singleProvider :: "rendered \<Rightarrow> bool" where
  \<comment> \<open>below every \<^verbatim>\<open>Theme\<close> there is no further one, and every consumer there has its context\<close>
  "singleProvider (Consumer c) = True"
| "singleProvider (Fragment kids) = list_all singleProvider kids"
| "singleProvider (ThemeInstance p st sc kids) =
     list_all (\<lambda>k. instances k = 0 \<and> observed k \<subseteq> {providerValue p st}) kids"
| "singleProvider (Host tag kids) = list_all singleProvider kids"

section \<open>Names used in the statements\<close>

definition systemName :: "MediaQueryList \<Rightarrow> string" where
  "systemName mql = (if matches mql then ''dark'' else ''light'')"


definition knownClasses :: "props \<Rightarrow> dom \<Rightarrow> string list" where
  \<comment> \<open>the known theme attribute values that are classes of the root\<close>
  "knownClasses p d = filter (\<lambda>c. c \<in> set (attrs p)) (classList d)"

definition written :: "string option \<Rightarrow> string option" where
  \<comment> \<open>the name that reaches the root: a name that is undefined or empty is not written\<close>
  "written name = (case name of Some n \<Rightarrow> if n \<noteq> [] then Some n else None | None \<Rightarrow> None)"

definition addToken :: "string \<Rightarrow> string list \<Rightarrow> string list" where
  \<comment> \<open>the class list after \<^verbatim>\<open>classList.add\<close>, whether or not it threw\<close>
  "addToken n cl = (case tokenError n of Some e \<Rightarrow> cl | None \<Rightarrow> if n \<in> set cl then cl else cl @ [n])"

definition classesAfter :: "props \<Rightarrow> string option \<Rightarrow> string list \<Rightarrow> string list" where
  \<comment> \<open>the class list after the known values are removed and the name, if written, is added;
     unchanged when the removal throws\<close>
  "classesAfter p name cl =
     (case tokensError (attrs p) of
        Some e \<Rightarrow> cl
      | None \<Rightarrow>
          (case written name of
             Some n \<Rightarrow> addToken n (filter (\<lambda>c. c \<notin> set (attrs p)) cl)
           | None \<Rightarrow> filter (\<lambda>c. c \<notin> set (attrs p)) cl))"

definition attributesAfter :: "props \<Rightarrow> string option \<Rightarrow> (string \<Rightarrow> string option) \<Rightarrow> (string \<Rightarrow> string option)" where
  \<comment> \<open>the attributes after the name is set, or the attribute removed when no name is written;
     unchanged when \<^verbatim>\<open>setAttribute\<close> throws\<close>
  "attributesAfter p name m =
     (case written name of
        Some n \<Rightarrow> if validAttributeName (attribute p) then m(attribute p \<mapsto> n) else m
      | None \<Rightarrow> m(attribute p := None))"

definition isLight :: "string \<Rightarrow> bool" where
  "isLight t = (t = ''light'' \<or> startsWith t ''light-'')"

definition isDark :: "string \<Rightarrow> bool" where
  "isDark t = (t = ''dark'' \<or> startsWith t ''dark-'')"

definition suffixKey :: "string \<Rightarrow> bool" where
  \<comment> \<open>a suffix as the provider keys it: empty, or a hyphen and what follows\<close>
  "suffixKey k = (k = [] \<or> hd k = CHR ''-'')"

definition pairedSuffix :: "string list \<Rightarrow> string \<Rightarrow> bool" where
  \<comment> \<open>the configured list has both the light and the dark variant of the suffix\<close>
  "pairedSuffix ts k = (suffixKey k \<and> ''light'' @ k \<in> set ts \<and> ''dark'' @ k \<in> set ts)"

definition hasLight :: "(string \<times> flags) list \<Rightarrow> string \<Rightarrow> bool" where
  "hasLight m k = (case map_of m k of Some v \<Rightarrow> light v | None \<Rightarrow> False)"

definition hasDark :: "(string \<times> flags) list \<Rightarrow> string \<Rightarrow> bool" where
  "hasDark m k = (case map_of m k of Some v \<Rightarrow> dark v | None \<Rightarrow> False)"

text \<open>Concrete inputs: the props when none is passed, an empty working storage, a root
  element with nothing set, the media query of a dark and of a light system.\<close>

definition defaults :: props where
  "defaults = destructure noProps"

definition emptyStorage :: localStorage where
  "emptyStorage = \<lparr>items = Map.empty, denied = False, full = False, accesses = []\<rparr>"

definition emptyRoot :: dom where
  "emptyRoot = \<lparr>classList = [], attributes = Map.empty, colorScheme = [],
                 headStyles = 0, removalTimers = 0\<rparr>"

definition darkOS :: MediaQueryList where
  "darkOS = \<lparr>media = MEDIA, matches = True\<rparr>"

definition lightOS :: MediaQueryList where
  "lightOS = \<lparr>media = MEDIA, matches = False\<rparr>"

definition freshWorld :: world where
  "freshWorld = \<lparr>state = \<lparr>theme = None, resolvedTheme = None\<rparr>, storage = emptyStorage,
                  darkQuery = lightOS, root = emptyRoot\<rparr>"

definition storedWorld :: "string \<Rightarrow> MediaQueryList \<Rightarrow> world" where
  \<comment> \<open>a fresh page whose storage holds the preference under the key \<open>theme\<close>\<close>
  "storedWorld v mq =
     freshWorld\<lparr>storage := emptyStorage\<lparr>items := [''theme'' \<mapsto> v]\<rparr>, darkQuery := mq\<rparr>"

definition classNight :: props where
  "classNight = defaults\<lparr>attribute := ''class'', value_map := Some [(''dark'', ''night'')]\<rparr>"

definition attrNight :: props where
  "attrNight = defaults\<lparr>value_map := Some [(''dark'', ''night'')]\<rparr>"

definition redBlue :: props where
  "redBlue = defaults\<lparr>attribute := ''class'', themes := [''red'', ''blue'']\<rparr>"

definition multiSystem :: props where
  "multiSystem = defaults\<lparr>enableMultipleSystemThemes := True\<rparr>"


definition dayNight :: props where
  "dayNight = defaults\<lparr>value_map := Some [(''light'', ''day''), (''dark'', ''night'')]\<rparr>"

section \<open>Resolution of the persisted preference\<close>

text \<open>
  C2. In a browser whose storage holds a non-empty preference under the key, the resolved
  theme is: for \<open>system\<close>, \<open>dark\<close> when the dark-mode media query matches and \<open>light\<close>
  otherwise; with enableMultipleSystemThemes, for \<open>system\<close> followed by a suffix that starts
  with a hyphen, the light/dark name followed by that suffix; for every other preference,
  the preference itself.
\<close>

theorem getResolvedTheme_persisted:
  assumes "\<not> denied ls" and "items ls k = Some pref" and "pref \<noteq> []"
  shows "fst (getResolvedTheme False mql k fallback em ls) =
           Inr (Some (if pref = ''system'' then systemName mql
                      else if em \<and> (\<exists>sfx. pref = ''system-'' @ sfx)
                        then systemName mql @ ''-'' @ drop 7 pref
                      else pref))"
proof -
  have g: "getTheme False k fallback ls = (Inr (Some pref), ls\<lparr>accesses := accesses ls @ [GetItem k]\<rparr>)"
    using assms by (simp add: getTheme_def getItem_def js_or_def truthy_def)
  have sfx: "startsWith pref ''system-'' \<longleftrightarrow> (\<exists>sfx. pref = ''system-'' @ sfx)"
    by (auto simp: startsWith_def prefix_def)
  have sub: "startsWith pref ''system-'' \<Longrightarrow> substring pref 6 = ''-'' @ drop 7 pref"
    by (auto simp: startsWith_def prefix_def substring_def)
  show ?thesis
    using assms(3) sfx sub
    by (auto simp: getResolvedTheme_def g getSystemTheme_def systemName_def)
qed

theorem getResolvedTheme_persisted_witness:
  "fst (getResolvedTheme False darkOS ''theme'' (Some ''system'') True
          (emptyStorage\<lparr>items := [''theme'' \<mapsto> ''system-hc'']\<rparr>))
     = Inr (Some ''dark-hc'')"
proof -
  have e: "\<exists>sfx. ''system-hc'' = ''system-'' @ sfx" by simp
  show ?thesis
    using e getResolvedTheme_persisted
      [of "emptyStorage\<lparr>items := [''theme'' \<mapsto> ''system-hc'']\<rparr>"
          "''theme''" "''system-hc''" darkOS "Some ''system''" True]
    by (simp add: systemName_def emptyStorage_def darkOS_def)
qed

section \<open>Storage events\<close>

text \<open>
  C6. A storage event whose key is the configured storage key sets the theme state to the
  event's new value, or to the default theme when the new value is null or empty; an event
  for any other key (or with no key) leaves the world as it was. No exception leaves the
  handler.
\<close>

theorem handleStorage_sets_theme:
  "(key e = Some (storageKey p) \<longrightarrow>
      theme (state (snd (handleStorage p e w))) =
        Some (case newValue e of None \<Rightarrow> defaultTheme p
              | Some v \<Rightarrow> if v = [] then defaultTheme p else v))
   \<and> (key e \<noteq> Some (storageKey p) \<longrightarrow> snd (handleStorage p e w) = w)
   \<and> fst (handleStorage p e w) = None"
  by (cases "setItem (storageKey p) (defaultTheme p) (storage w)";
      cases "newValue e"; cases "setItem (storageKey p) (the (newValue e)) (storage w)")
     (auto simp: handleStorage_def setTheme_def js_or_def truthy_def Let_def
           split: option.splits prod.splits)

theorem handleStorage_sets_theme_witness:
  "theme (state (snd (handleStorage defaults
       \<lparr>key = Some ''theme'', newValue = Some ''dark''\<rparr> freshWorld))) = Some ''dark''
   \<and> theme (state (snd (handleStorage defaults
       \<lparr>key = Some ''theme'', newValue = None\<rparr> freshWorld))) = Some ''system''
   \<and> snd (handleStorage defaults \<lparr>key = Some ''other'', newValue = Some ''dark''\<rparr> freshWorld)
       = freshWorld"
  using handleStorage_sets_theme [of "\<lparr>key = Some ''theme'', newValue = Some ''dark''\<rparr>" defaults freshWorld]
        handleStorage_sets_theme [of "\<lparr>key = Some ''theme'', newValue = None\<rparr>" defaults freshWorld]
        handleStorage_sets_theme [of "\<lparr>key = Some ''other'', newValue = Some ''dark''\<rparr>" defaults freshWorld]
  by (simp add: defaults_def destructure_def noProps_def orDefault_def)

section \<open>Persisting the preference\<close>

text \<open>
  C7. When storage accepts the write, setTheme stores the theme under the configured
  storage key; whatever the storage does, every other entry keeps its value, and the only
  access setTheme makes is the one write under that key (so nothing is read).
\<close>

theorem setTheme_single_key:
  "(\<not> denied (storage w) \<and> \<not> full (storage w) \<longrightarrow>
      items (storage (snd (setTheme p t w))) (storageKey p) = Some t)
   \<and> (k \<noteq> storageKey p \<longrightarrow> items (storage (snd (setTheme p t w))) k = items (storage w) k)
   \<and> accesses (storage (snd (setTheme p t w))) =
       accesses (storage w) @ (if denied (storage w) then [] else [SetItem (storageKey p) t])"
  by (simp add: setTheme_def setItem_def Let_def)

theorem setTheme_single_key_witness:
  "items (storage (snd (setTheme defaults ''dark''
      (freshWorld\<lparr>storage := emptyStorage\<lparr>items := [''lang'' \<mapsto> ''en'']\<rparr>\<rparr>)))) ''theme''
     = Some ''dark''
   \<and> items (storage (snd (setTheme defaults ''dark''
      (freshWorld\<lparr>storage := emptyStorage\<lparr>items := [''lang'' \<mapsto> ''en'']\<rparr>\<rparr>)))) ''lang''
     = Some ''en''
   \<and> accesses (storage (snd (setTheme defaults ''dark''
      (freshWorld\<lparr>storage := emptyStorage\<lparr>items := [''lang'' \<mapsto> ''en'']\<rparr>\<rparr>))))
     = [SetItem ''theme'' ''dark'']"
  using setTheme_single_key [of
      "freshWorld\<lparr>storage := emptyStorage\<lparr>items := [''lang'' \<mapsto> ''en'']\<rparr>\<rparr>"
      defaults "''dark''" "''lang''"]
  by (simp add: defaults_def destructure_def noProps_def orDefault_def freshWorld_def emptyStorage_def)

section \<open>useTheme outside a provider\<close>

text \<open>
  C9. Outside every provider useTheme returns the default context: its themes list is
  empty, and its setTheme, for every argument and every world, changes nothing and lets no
  exception out.
\<close>

theorem useTheme_outside_provider:
  "useTheme None = defaultContext
   \<and> ctx_themes (useTheme None) = []
   \<and> ctx_setTheme (useTheme None) t w = (None, w)"
  by (simp add: useTheme_def defaultContext_def)

section \<open>Storage that throws\<close>

text \<open>
  C10. When storage refuses the access or the write, setTheme lets no exception out, sets
  the theme state to the requested value and leaves the stored entries as they were; and
  in a browser whose storage refuses the access, getTheme lets no exception out and
  returns the fallback.
\<close>

theorem storage_exception_swallowed:
  "(denied (storage w) \<or> full (storage w) \<longrightarrow>
      fst (setTheme p t w) = None
      \<and> theme (state (snd (setTheme p t w))) = Some t
      \<and> items (storage (snd (setTheme p t w))) = items (storage w))
   \<and> (denied ls \<longrightarrow> fst (getTheme False k (Some fb) ls) = Inr (Some fb))"
  by (auto simp: setTheme_def setItem_def getTheme_def getItem_def js_or_def truthy_def Let_def)

theorem storage_exception_swallowed_witness:
  "fst (setTheme defaults ''dark'' (freshWorld\<lparr>storage := emptyStorage\<lparr>full := True\<rparr>\<rparr>)) = None
   \<and> theme (state (snd (setTheme defaults ''dark''
        (freshWorld\<lparr>storage := emptyStorage\<lparr>full := True\<rparr>\<rparr>)))) = Some ''dark''
   \<and> fst (getTheme False ''theme'' (Some ''system'')
        (emptyStorage\<lparr>items := [''theme'' \<mapsto> ''dark''], denied := True\<rparr>))
       = Inr (Some ''system'')"
  using storage_exception_swallowed [of
      "freshWorld\<lparr>storage := emptyStorage\<lparr>full := True\<rparr>\<rparr>" defaults "''dark''"
      "emptyStorage\<lparr>items := [''theme'' \<mapsto> ''dark''], denied := True\<rparr>"
      "''theme''" "''system''"]
  by (simp add: freshWorld_def emptyStorage_def)

section \<open>The published themes\<close>

subsection \<open>Sets as lists\<close>

lemma set_set_add: "set (set_add s x) = insert x (set s)"
  by (auto simp: set_add_def)

lemma distinct_set_add: "distinct s \<Longrightarrow> distinct (set_add s x)"
  by (simp add: set_add_def)

lemma set_foldl_set_add: "set (foldl set_add s xs) = set s \<union> set xs"
  by (induction xs arbitrary: s) (auto simp: set_set_add)

lemma distinct_foldl_set_add: "distinct s \<Longrightarrow> distinct (foldl set_add s xs)"
  by (induction xs arbitrary: s) (auto simp: distinct_set_add)

subsection \<open>The key of a theme\<close>

lemma starts_light: "startsWith t ''light-'' \<longleftrightarrow> (\<exists>r. t = ''light-'' @ r)"
  by (auto simp: startsWith_def prefix_def)

lemma starts_dark: "startsWith t ''dark-'' \<longleftrightarrow> (\<exists>r. t = ''dark-'' @ r)"
  by (auto simp: startsWith_def prefix_def)

lemma themeKey_cases:
  "themeKey t =
     (if t = ''light'' \<or> t = ''dark'' then Some []
      else if startsWith t ''light-'' then Some (drop 5 t)
      else if startsWith t ''dark-'' then Some (drop 4 t) else None)"
  by (auto simp: themeKey_def starts_light starts_dark substring_def indexOf_def Let_def)

lemma suffixKey_cons: "suffixKey k \<longleftrightarrow> k = [] \<or> (\<exists>r. k = CHR ''-'' # r)"
  by (cases k) (auto simp: suffixKey_def)

lemma themeKey_light: "themeKey t = Some k \<and> isLight t \<longleftrightarrow> suffixKey k \<and> t = ''light'' @ k"
  by (auto simp: themeKey_cases isLight_def starts_light starts_dark suffixKey_cons)

lemma themeKey_dark: "themeKey t = Some k \<and> isDark t \<longleftrightarrow> suffixKey k \<and> t = ''dark'' @ k"
  by (auto simp: themeKey_cases isDark_def starts_light starts_dark suffixKey_cons)

subsection \<open>The loop over the themes\<close>

lemma map_of_noteTheme:
  "map_of (noteTheme m t) =
     (case themeKey t of
        None \<Rightarrow> map_of m
      | Some k \<Rightarrow> (map_of m)(k \<mapsto> \<lparr>light = hasLight m k \<or> isLight t, dark = hasDark m k \<or> isDark t\<rparr>))"
  by (auto simp: noteTheme_def update_conv' hasLight_def hasDark_def isLight_def isDark_def Let_def
           split: option.splits)

lemma hasLight_noteTheme:
  "hasLight (noteTheme m t) k \<longleftrightarrow> hasLight m k \<or> (themeKey t = Some k \<and> isLight t)"
  by (auto simp: hasLight_def map_of_noteTheme split: option.splits)

lemma hasDark_noteTheme:
  "hasDark (noteTheme m t) k \<longleftrightarrow> hasDark m k \<or> (themeKey t = Some k \<and> isDark t)"
  by (auto simp: hasDark_def map_of_noteTheme split: option.splits)

lemma distinct_noteTheme: "distinct (map fst m) \<Longrightarrow> distinct (map fst (noteTheme m t))"
  by (auto simp: noteTheme_def distinct_update Let_def split: option.splits)

lemma hasLight_foldl:
  "hasLight (foldl noteTheme m ts) k \<longleftrightarrow>
     hasLight m k \<or> (\<exists>t \<in> set ts. themeKey t = Some k \<and> isLight t)"
  by (induction ts arbitrary: m) (auto simp: hasLight_noteTheme)

lemma hasDark_foldl:
  "hasDark (foldl noteTheme m ts) k \<longleftrightarrow>
     hasDark m k \<or> (\<exists>t \<in> set ts. themeKey t = Some k \<and> isDark t)"
  by (induction ts arbitrary: m) (auto simp: hasDark_noteTheme)

lemma distinct_foldl_noteTheme:
  "distinct (map fst m) \<Longrightarrow> distinct (map fst (foldl noteTheme m ts))"
  by (induction ts arbitrary: m) (auto simp: distinct_noteTheme)


lemma mem_systemThemes:
  "k \<in> set (systemThemes ts) \<longleftrightarrow>
     hasLight (maybeSystemThemes ts) k \<and> hasDark (maybeSystemThemes ts) k"
proof -
  let ?m = "maybeSystemThemes ts"
  have d: "distinct (map fst ?m)"
    by (simp add: maybeSystemThemes_def distinct_foldl_noteTheme)
  have "k \<in> set (systemThemes ts) \<longleftrightarrow> (\<exists>v. (k, v) \<in> set ?m \<and> light v \<and> dark v)"
    unfolding systemThemes_def by force
  also have "\<dots> \<longleftrightarrow> (\<exists>v. map_of ?m k = Some v \<and> light v \<and> dark v)"
    using d by (simp only: map_of_eq_Some_iff)
  also have "\<dots> \<longleftrightarrow> hasLight ?m k \<and> hasDark ?m k"
    by (cases "map_of ?m k") (simp_all add: hasLight_def hasDark_def)
  finally show ?thesis .
qed

lemma hasLight_maybeSystemThemes:
  "hasLight (maybeSystemThemes ts) k \<longleftrightarrow> suffixKey k \<and> ''light'' @ k \<in> set ts"
proof -
  have "hasLight (maybeSystemThemes ts) k \<longleftrightarrow> (\<exists>t \<in> set ts. themeKey t = Some k \<and> isLight t)"
    by (simp add: maybeSystemThemes_def hasLight_foldl) (simp add: hasLight_def)
  also have "\<dots> \<longleftrightarrow> (\<exists>t \<in> set ts. suffixKey k \<and> t = ''light'' @ k)"
    by (simp only: themeKey_light)
  finally show ?thesis by blast
qed

lemma hasDark_maybeSystemThemes:
  "hasDark (maybeSystemThemes ts) k \<longleftrightarrow> suffixKey k \<and> ''dark'' @ k \<in> set ts"
proof -
  have "hasDark (maybeSystemThemes ts) k \<longleftrightarrow> (\<exists>t \<in> set ts. themeKey t = Some k \<and> isDark t)"
    by (simp add: maybeSystemThemes_def hasDark_foldl) (simp add: hasDark_def)
  also have "\<dots> \<longleftrightarrow> (\<exists>t \<in> set ts. suffixKey k \<and> t = ''dark'' @ k)"
    by (simp only: themeKey_dark)
  finally show ?thesis by blast
qed

lemma set_systemThemes: "set (systemThemes ts) = {k. pairedSuffix ts k}"
  unfolding pairedSuffix_def
  by (rule set_eqI) (simp add: mem_systemThemes hasLight_maybeSystemThemes hasDark_maybeSystemThemes, blast)


lemma set_providerThemes:
  "enableSystem p \<Longrightarrow>
     set (providerThemes p) =
       set (themes p) \<union> {''system''}
       \<union> (if enableMultipleSystemThemes p
           then {''system'' @ k | k. pairedSuffix (themes p) k} else {})"
  by (simp add: providerThemes_def new_Set_def set_foldl_set_add set_set_add
        set_systemThemes Let_def image_Collect Un_commute)

lemma distinct_providerThemes: "enableSystem p \<Longrightarrow> distinct (providerThemes p)"
  by (simp add: providerThemes_def new_Set_def distinct_foldl_set_add distinct_set_add Let_def)

text \<open>
  C3. With enableSystem, the published themes have no duplicates and are the configured
  themes, \<open>system\<close>, and, with enableMultipleSystemThemes, \<open>system\<close> followed by each
  suffix (empty, or a hyphen and a name) whose light and dark variants are both configured.
  Without enableSystem they are the configured list itself.
\<close>

theorem providerThemes_contents:
  "(enableSystem p \<longrightarrow>
      distinct (providerThemes p)
      \<and> set (providerThemes p) =
          set (themes p) \<union> {''system''}
          \<union> (if enableMultipleSystemThemes p
              then {''system'' @ k | k. pairedSuffix (themes p) k} else {}))
   \<and> (\<not> enableSystem p \<longrightarrow> providerThemes p = themes p)"
  using set_providerThemes [of p] distinct_providerThemes [of p]
  by (simp add: providerThemes_def)

theorem providerThemes_contents_witness:
  "distinct (providerThemes (defaults\<lparr>enableMultipleSystemThemes := True,
       themes := [''light'', ''dark-hc'', ''light-hc'', ''light'', ''pink'']\<rparr>))
   \<and> set (providerThemes (defaults\<lparr>enableMultipleSystemThemes := True,
       themes := [''light'', ''dark-hc'', ''light-hc'', ''light'', ''pink'']\<rparr>))
       = {''light'', ''dark-hc'', ''light-hc'', ''pink'', ''system'', ''system-hc''}
   \<and> providerThemes (defaults\<lparr>enableSystem := False, themes := [''a'', ''a'']\<rparr>) = [''a'', ''a'']"
proof -
  have "{''system'' @ k | k. pairedSuffix [''light'', ''dark-hc'', ''light-hc'', ''light'', ''pink''] k}
        = {''system-hc''}"
    by (auto simp: pairedSuffix_def suffixKey_def)
  then show ?thesis
    using providerThemes_contents [of "defaults\<lparr>enableMultipleSystemThemes := True,
         themes := [''light'', ''dark-hc'', ''light-hc'', ''light'', ''pink'']\<rparr>"]
       providerThemes_contents [of "defaults\<lparr>enableSystem := False, themes := [''a'', ''a'']\<rparr>"]
    by (simp add: defaults_def destructure_def noProps_def orDefault_def insert_commute)
qed

section \<open>The script text and its statements\<close>

lemma render_prelude_of: "renderPrelude (prelude_of p) = optimization p"
  by (simp add: renderPrelude_def prelude_of_def optimization_def Let_def)

lemma render_fallback_of: "renderFallback (fallback_of p) = fallbackColorScheme p"
  by (simp add: renderFallback_def fallback_of_def fallbackColorScheme_def)

lemma render_updateNamed: "renderUpdate (updateNamed p n scs) = updateDOM p n False scs"
  by (simp add: renderUpdate_def updateNamed_def updateDOM_def renderWrite_def renderExpr_def
        truthy_def Let_def split: option.splits)

lemma render_updateStored: "renderUpdate (updateStored p) = updateDOM p (storedName p) True scs"
  by (simp add: renderUpdate_def updateStored_def updateDOM_def renderWrite_def renderExpr_def
        storedName_def truthy_def Let_def split: option.splits)

lemma render_x: "renderX (value_map p) = xDeclaration p"
  by (simp add: renderX_def xDeclaration_def)

text \<open>The text of the statements built from the props is the text the generator emits.\<close>

lemma script_text: "renderScript (script_of p) = scriptSrc p"
  by (simp add: renderScript_def script_of_def scriptSrc_def render_prelude_of
        render_fallback_of render_updateNamed render_updateStored [of p True] render_x)

section \<open>Nested providers\<close>

lemma render_in_context:
  "instances (render sv ls mq (Some c) t) = 0 \<and> observed (render sv ls mq (Some c) t) \<subseteq> {c}"
proof (induction t)
  case UseTheme
  show ?case by (simp add: useTheme_def)
next
  case (ThemeProviderNode rp kids)
  then show ?case by (auto simp: ThemeProvider_def)
next
  case (Element tag kids)
  then show ?case by auto
qed

lemma render_singleProvider: "singleProvider (render sv ls mq None t)"
proof (induction t)
  case UseTheme
  show ?case by simp
next
  case (ThemeProviderNode rp kids)
  show ?case
    by (simp add: ThemeProvider_def Let_def list_all_iff render_in_context)
next
  case (Element tag kids)
  then show ?case by (simp add: list_all_iff)
qed

text \<open>
  C8. A ThemeProvider that finds a context returns its children as they are; rendered
  under a context, a tree holds no \<^verbatim>\<open>Theme\<close> (no state container, no script) and each of
  its consumers is given that context; so in a tree rendered from the top, below every
  \<^verbatim>\<open>Theme\<close> there is no second one and the consumers there have the outermost
  provider's context.
\<close>

theorem nested_provider_passthrough:
  "ThemeProvider (Some c) rp kids = PassThrough kids
   \<and> render sv ls mq (Some c) (ThemeProviderNode rp kids)
       = Fragment (map (render sv ls mq (Some c)) kids)
   \<and> instances (render sv ls mq (Some c) t) = 0
   \<and> observed (render sv ls mq (Some c) t) \<subseteq> {c}
   \<and> singleProvider (render sv ls mq None t)"
  by (simp add: ThemeProvider_def render_in_context render_singleProvider)

theorem nested_provider_passthrough_witness:
  "ThemeProvider (Some defaultContext) noProps [UseTheme] = PassThrough [UseTheme]
   \<and> render False emptyStorage lightOS (Some defaultContext) (ThemeProviderNode noProps [UseTheme])
       = Fragment (map (render False emptyStorage lightOS (Some defaultContext)) [UseTheme])
   \<and> instances (render False emptyStorage lightOS (Some defaultContext)
        (ThemeProviderNode noProps [Element ''div'' [ThemeProviderNode noProps [UseTheme]]])) = 0
   \<and> observed (render False emptyStorage lightOS (Some defaultContext)
        (ThemeProviderNode noProps [Element ''div'' [ThemeProviderNode noProps [UseTheme]]]))
       \<subseteq> {defaultContext}
   \<and> singleProvider (render False emptyStorage lightOS None
        (ThemeProviderNode noProps [Element ''div'' [ThemeProviderNode noProps [UseTheme]]]))"
  by (rule nested_provider_passthrough)

section \<open>What applyTheme leaves on the root\<close>

lemma applyTheme_class:
  assumes "t \<noteq> []" and "attribute p = ''class''" and "fst (applyTheme p mql (Some t) d) = None"
  shows "set (classList (snd (applyTheme p mql (Some t) d))) =
           (set (classList d) - set (attrs p))
           \<union> (case written (themeName p (resolve p mql t)) of Some n \<Rightarrow> {n} | None \<Rightarrow> {})"
    and "knownClasses p (snd (applyTheme p mql (Some t) d)) =
           (case written (themeName p (resolve p mql t)) of
              Some n \<Rightarrow> if n \<in> set (attrs p) then [n] else [] | None \<Rightarrow> [])"
  using assms
  by (auto simp: applyTheme_def andThen_def classList_remove_def classList_add_def written_def
        knownClasses_def disableAnimation_def enable_def set_colorScheme_def Let_def filter_empty_conv
        split: option.splits if_splits prod.splits)

lemma applyTheme_attribute:
  assumes "t \<noteq> []" and "attribute p \<noteq> ''class''" and "fst (applyTheme p mql (Some t) d) = None"
  shows "attributes (snd (applyTheme p mql (Some t) d)) (attribute p)
           = written (themeName p (resolve p mql t))"
  using assms
  by (auto simp: applyTheme_def andThen_def setAttribute_def removeAttribute_def written_def
        disableAnimation_def enable_def set_colorScheme_def Let_def
        split: option.splits if_splits prod.splits)


text \<open>
  C4, as the code has it. The name of the resolved theme is the resolved theme itself, or
  with a value map what the map gives for it, own or inherited. After applyTheme has run
  on a non-empty theme without an exception: in class mode the classes of the root are the
  earlier ones that are not known attribute values, and that name when it is defined and
  not empty; so the known values present are that name alone when it is a known value, and
  none otherwise. In attribute mode (the attribute not being \<open>style\<close>, which the
  color scheme is written to) the attribute holds that name when it is defined and not
  empty, and is absent otherwise.
\<close>

theorem applyTheme_root:
  "t \<noteq> [] \<and> fst (applyTheme p mql (Some t) d) = None \<longrightarrow>
     (attribute p = ''class'' \<longrightarrow>
        set (classList (snd (applyTheme p mql (Some t) d))) =
          (set (classList d) - set (attrs p))
          \<union> (case written (themeName p (resolve p mql t)) of Some n \<Rightarrow> {n} | None \<Rightarrow> {})
        \<and> knownClasses p (snd (applyTheme p mql (Some t) d)) =
            (case written (themeName p (resolve p mql t)) of
               Some n \<Rightarrow> if n \<in> set (attrs p) then [n] else [] | None \<Rightarrow> []))
     \<and> (attribute p \<noteq> ''class'' \<and> attribute p \<noteq> ''style'' \<longrightarrow>
          attributes (snd (applyTheme p mql (Some t) d)) (attribute p)
            = written (themeName p (resolve p mql t)))"
  using applyTheme_class [of t p mql d] applyTheme_attribute [of t p mql d]
  by blast

theorem applyTheme_root_witness:
  "knownClasses (defaults\<lparr>attribute := ''class''\<rparr>)
     (snd (applyTheme (defaults\<lparr>attribute := ''class''\<rparr>) darkOS (Some ''system'')
        (emptyRoot\<lparr>classList := [''light'', ''page'']\<rparr>))) = [''dark'']
   \<and> set (classList (snd (applyTheme (defaults\<lparr>attribute := ''class''\<rparr>) darkOS (Some ''system'')
        (emptyRoot\<lparr>classList := [''light'', ''page'']\<rparr>)))) = {''page'', ''dark''}
   \<and> attributes (snd (applyTheme defaults darkOS (Some ''system'') emptyRoot)) ''data-theme''
       = Some ''dark''"
proof -
  have a: "fst (applyTheme (defaults\<lparr>attribute := ''class''\<rparr>) darkOS (Some ''system'')
             (emptyRoot\<lparr>classList := [''light'', ''page'']\<rparr>)) = None"
    by code_simp
  have b: "fst (applyTheme defaults darkOS (Some ''system'') emptyRoot) = None"
    by code_simp
  have c: "written (themeName (defaults\<lparr>attribute := ''class''\<rparr>)
             (resolve (defaults\<lparr>attribute := ''class''\<rparr>) darkOS ''system'')) = Some ''dark''"
    by code_simp
  have d: "written (themeName defaults (resolve defaults darkOS ''system'')) = Some ''dark''"
    by code_simp
  have e: "attrs (defaults\<lparr>attribute := ''class''\<rparr>) = [''light'', ''dark'']"
    by code_simp
  have f: "attribute defaults = ''data-theme''"
    by code_simp
  show ?thesis
    using a b c d e f
      applyTheme_root [of "''system''" "defaults\<lparr>attribute := ''class''\<rparr>" darkOS
        "emptyRoot\<lparr>classList := [''light'', ''page'']\<rparr>"]
      applyTheme_root [of "''system''" defaults darkOS emptyRoot]
    by (auto simp add: emptyRoot_def)
qed

text \<open>
  A theme named like a property that every object inherits finds that property in a value
  map that has no entry of its own for it: the name is then the built-in function, which
  attribute mode writes as its text and which class mode cannot add, the text having
  white space in it.
\<close>

lemma applyTheme_inherited_name:
  "themeName attrNight ''toString'' = Some ''function toString() { [native code] }''
   \<and> attributes (snd (applyTheme attrNight lightOS (Some ''toString'') emptyRoot)) ''data-theme''
       = Some ''function toString() { [native code] }''
   \<and> fst (applyTheme classNight lightOS (Some ''toString'') emptyRoot)
       = Some InvalidCharacterError"
  by code_simp

text \<open>
  C4 as stated fails. With a value map that has no entry for the theme, class mode leaves
  no known value on the root and attribute mode removes the attribute. And a resolved
  theme that is not among the known values is added as a class that no later application
  removes: with themes red and blue, applying \<open>system\<close> on a dark system and then \<open>red\<close>
  leaves both \<open>dark\<close> and \<open>red\<close>.
\<close>

theorem applyTheme_not_exactly_one:
  "fst (applyTheme classNight lightOS (Some ''light'') (emptyRoot\<lparr>classList := [''night'']\<rparr>)) = None
   \<and> knownClasses classNight
        (snd (applyTheme classNight lightOS (Some ''light'') (emptyRoot\<lparr>classList := [''night'']\<rparr>)))
       = []
   \<and> attributes (snd (applyTheme attrNight lightOS (Some ''light'')
        (emptyRoot\<lparr>attributes := [''data-theme'' \<mapsto> ''night'']\<rparr>))) ''data-theme'' = None
   \<and> knownClasses redBlue (snd (applyTheme redBlue darkOS (Some ''system'') emptyRoot)) = []
   \<and> classList (snd (applyTheme redBlue darkOS (Some ''red'')
        (snd (applyTheme redBlue darkOS (Some ''system'') emptyRoot)))) = [''dark'', ''red'']"
  by code_simp

section \<open>The color scheme\<close>

subsection \<open>What the emitted statements carry\<close>





lemma updateNamed_colorScheme:
  "fst (updateNamed p n scs)
     = (if enableColorScheme p \<and> scs \<and> (n = ''light'' \<or> n = ''dark'') then Some n else None)"
  by (auto simp: updateNamed_def array_includes_def colorSchemes_def Let_def)

lemma updateStored_colorScheme: "fst (updateStored p) = None"
  by (simp add: updateStored_def Let_def)












text \<open>
  The text updateDOM emits for a name written as a literal starts with the color-scheme
  assignment exactly when enableColorScheme and setColorScheme hold and the name is
  \<open>light\<close> or \<open>dark\<close>; the text for a stored preference is the write alone.
\<close>

lemma updateDOM_colorScheme_text:
  "updateDOM p n False scs
     = (if enableColorScheme p \<and> scs \<and> (n = ''light'' \<or> n = ''dark'')
        then ''d.style.colorScheme = '' @ quoted n @ '';'' else [])
       @ renderWrite (snd (updateNamed p n scs))"
  "updateDOM p (storedName p) True scs = renderWrite (snd (updateStored p))"
proof -
  show "updateDOM p n False scs
     = (if enableColorScheme p \<and> scs \<and> (n = ''light'' \<or> n = ''dark'')
        then ''d.style.colorScheme = '' @ quoted n @ '';'' else [])
       @ renderWrite (snd (updateNamed p n scs))"
    unfolding render_updateNamed [symmetric] renderUpdate_def updateNamed_colorScheme by simp
  show "updateDOM p (storedName p) True scs = renderWrite (snd (updateStored p))"
    unfolding render_updateStored [symmetric] renderUpdate_def updateStored_colorScheme by simp
qed

subsection \<open>The color scheme after applyTheme and after a run of the script\<close>




section \<open>The script against applyTheme\<close>

lemma classList_remove_simps:
  "classList (snd (classList_remove ts d)) =
     (case tokensError ts of Some e \<Rightarrow> classList d | None \<Rightarrow> filter (\<lambda>c. c \<notin> set ts) (classList d))"
  "attributes (snd (classList_remove ts d)) = attributes d"
  "fst (classList_remove ts d) = tokensError ts"
  by (simp_all add: classList_remove_def split: option.splits)

lemma classList_add_simps:
  "classList (snd (classList_add n d)) = addToken n (classList d)"
  "attributes (snd (classList_add n d)) = attributes d"
  by (simp_all add: classList_add_def addToken_def split: option.splits)

lemma transition_frame:
  "classList (if b then disableAnimation d else d) = classList d"
  "attributes (if b then disableAnimation d else d) = attributes d"
  "classList (if b then enable d else d) = classList d"
  "attributes (if b then enable d else d) = attributes d"
  by (simp_all add: disableAnimation_def enable_def)

lemma set_colorScheme_frame:
  "classList (set_colorScheme v d) = classList d"
  "attributes (set_colorScheme v d) = attributes d"
  by (simp_all add: set_colorScheme_def)

lemma applyTheme_class_result:
  assumes "t \<noteq> []" and "attribute p = ''class''"
  shows "classList (snd (applyTheme p mql (Some t) d))
           = classesAfter p (themeName p (resolve p mql t)) (classList d)
         \<and> attributes (snd (applyTheme p mql (Some t) d)) = attributes d"
proof -
  define d1 where "d1 = (if disableTransitionOnChange p then disableAnimation d else d)"
  define name where "name = themeName p (resolve p mql t)"
  have d1: "classList d1 = classList d" "attributes d1 = attributes d"
    by (simp_all add: d1_def transition_frame)
  have unfold: "applyTheme p mql (Some t) d =
      andThen
        (andThen (classList_remove (attrs p) d1)
           (\<lambda>d2. case name of
                    Some n \<Rightarrow> if n \<noteq> [] then classList_add n d2 else (None, d2)
                  | None \<Rightarrow> (None, d2)))
        (\<lambda>d3. (None,
           (let d4 = (if enableColorScheme p
                      then set_colorScheme (getColorScheme (resolve p mql t) (defaultColorScheme p)) d3
                      else d3)
            in if disableTransitionOnChange p then enable d4 else d4)))"
    using assms by (simp add: applyTheme_def Let_def d1_def name_def)
  show ?thesis
  proof (cases "tokensError (attrs p)")
    case (Some err)
    then have "classList_remove (attrs p) d1 = (Some err, d1)"
      by (simp add: classList_remove_def)
    then show ?thesis
      using Some d1 by (simp add: unfold andThen_def classesAfter_def name_def)
  next
    case None
    define d2 where "d2 = d1\<lparr>classList := filter (\<lambda>c. c \<notin> set (attrs p)) (classList d1)\<rparr>"
    have r: "classList_remove (attrs p) d1 = (None, d2)"
      using None by (simp add: classList_remove_def d2_def)
    have d2: "classList d2 = filter (\<lambda>c. c \<notin> set (attrs p)) (classList d)"
      "attributes d2 = attributes d"
      using d1 by (simp_all add: d2_def)
    show ?thesis
    proof (cases "written name")
      case None': None
      then have "(case name of Some n \<Rightarrow> if n \<noteq> [] then classList_add n d2 else (None, d2)
                  | None \<Rightarrow> (None, d2)) = (None, d2)"
        by (auto simp: written_def split: option.splits if_splits)
      then show ?thesis
        using None None' d2
        by (simp add: unfold r andThen_def classesAfter_def name_def [symmetric] Let_def
              transition_frame set_colorScheme_frame)
    next
      case (Some n)
      then have w: "(case name of Some n \<Rightarrow> if n \<noteq> [] then classList_add n d2 else (None, d2)
                  | None \<Rightarrow> (None, d2)) = classList_add n d2"
        by (auto simp: written_def split: option.splits if_splits)
      obtain x d3 where a: "classList_add n d2 = (x, d3)"
        by (cases "classList_add n d2")
      have d3: "classList d3 = addToken n (classList d2)" "attributes d3 = attributes d2"
        using classList_add_simps [of n d2] a by simp_all
      show ?thesis
        using None Some d2 d3
        by (cases x)
           (simp_all add: unfold r w a andThen_def classesAfter_def name_def [symmetric] Let_def
              transition_frame set_colorScheme_frame)
    qed
  qed
qed


lemma applyTheme_attribute_result:
  assumes "t \<noteq> []" and "attribute p \<noteq> ''class''"
  shows "attributes (snd (applyTheme p mql (Some t) d))
           = attributesAfter p (themeName p (resolve p mql t)) (attributes d)
         \<and> classList (snd (applyTheme p mql (Some t) d)) = classList d"
proof -
  define d1 where "d1 = (if disableTransitionOnChange p then disableAnimation d else d)"
  define name where "name = themeName p (resolve p mql t)"
  define r where "r = (case written name of
                         Some n \<Rightarrow> setAttribute (attribute p) n d1
                       | None \<Rightarrow> removeAttribute (attribute p) d1)"
  have d1: "classList d1 = classList d" "attributes d1 = attributes d"
    by (simp_all add: d1_def transition_frame)
  have w: "(case name of
              Some n \<Rightarrow> if n \<noteq> [] then setAttribute (attribute p) n d1
                        else removeAttribute (attribute p) d1
            | None \<Rightarrow> removeAttribute (attribute p) d1) = r"
    by (auto simp: r_def written_def split: option.splits)
  have unfold: "applyTheme p mql (Some t) d =
      andThen r
        (\<lambda>d3. (None,
           (let d4 = (if enableColorScheme p
                      then set_colorScheme (getColorScheme (resolve p mql t) (defaultColorScheme p)) d3
                      else d3)
            in if disableTransitionOnChange p then enable d4 else d4)))"
  proof -
    have "applyTheme p mql (Some t) d =
      andThen (case name of
              Some n \<Rightarrow> if n \<noteq> [] then setAttribute (attribute p) n d1
                        else removeAttribute (attribute p) d1
            | None \<Rightarrow> removeAttribute (attribute p) d1)
        (\<lambda>d3. (None,
           (let d4 = (if enableColorScheme p
                      then set_colorScheme (getColorScheme (resolve p mql t) (defaultColorScheme p)) d3
                      else d3)
            in if disableTransitionOnChange p then enable d4 else d4)))"
      unfolding d1_def name_def using assms
      by (cases "disableTransitionOnChange p") (simp_all add: applyTheme_def Let_def)
    then show ?thesis by (simp only: w)
  qed
  have r: "attributes (snd r) = attributesAfter p name (attributes d)" "classList (snd r) = classList d"
    using d1
    by (auto simp: r_def attributesAfter_def setAttribute_def removeAttribute_def
          split: option.splits)
  show ?thesis
    using r
    by (cases r; cases "fst r")
       (simp_all add: unfold andThen_def name_def [symmetric] Let_def transition_frame
          set_colorScheme_frame)
qed

lemma addToken_empty: "addToken [] cl = cl"
  by (simp add: addToken_def tokenError_def)

lemma execUpdate_named_class:
  assumes "attribute p = ''class''" and "scope_prelude sc = RemoveClasses ts"
  shows "classList (snd (execUpdate sc (updateNamed p n scs) d))
           = (case written (themeName p n) of Some r \<Rightarrow> addToken r (classList d)
              | None \<Rightarrow> classList d)
         \<and> attributes (snd (execUpdate sc (updateNamed p n scs) d)) = attributes d"
  using assms
  by (auto simp: execUpdate_def execWrite_def evalExpr_def updateNamed_def themeName_def
        written_def classList_add_simps set_colorScheme_frame Let_def
        split: option.splits)

lemma execUpdate_stored_class:
  assumes "attribute p = ''class''" and "scope_prelude sc = RemoveClasses ts"
    and "e_declared sc" and "e_value sc = Some e" and "x_value sc = value_map p" and "e \<noteq> []"
  shows "classList (snd (execUpdate sc (updateStored p) d))
           = (case written (themeName p e) of Some r \<Rightarrow> addToken r (classList d)
              | None \<Rightarrow> classList d)
         \<and> attributes (snd (execUpdate sc (updateStored p) d)) = attributes d"
  using assms
  by (auto simp: execUpdate_def execWrite_def evalExpr_def updateStored_def themeName_def
        written_def classList_add_simps addToken_empty Let_def
        split: option.splits)

lemma execUpdate_named_attribute:
  assumes "attribute p \<noteq> ''class''" and "scope_prelude sc = AttributeName (attribute p)"
    and "value_map p = None"
  shows "attributes (snd (execUpdate sc (updateNamed p n scs) d))
           = (case written (Some n) of Some r \<Rightarrow> attributesAfter p (Some n) (attributes d)
              | None \<Rightarrow> attributes d)
         \<and> classList (snd (execUpdate sc (updateNamed p n scs) d)) = classList d"
  using assms
  by (auto simp: execUpdate_def execWrite_def evalExpr_def updateNamed_def
        written_def attributesAfter_def setAttribute_def set_colorScheme_def Let_def
        split: option.splits)

lemma execUpdate_stored_attribute:
  assumes "attribute p \<noteq> ''class''" and "scope_prelude sc = AttributeName (attribute p)"
    and "value_map p = None" and "e_declared sc" and "e_value sc = Some e" and "e \<noteq> []"
  shows "attributes (snd (execUpdate sc (updateStored p) d))
           = attributesAfter p (Some e) (attributes d)
         \<and> classList (snd (execUpdate sc (updateStored p) d)) = classList d"
  using assms
  by (auto simp: execUpdate_def execWrite_def evalExpr_def updateStored_def truthy_def
        written_def attributesAfter_def setAttribute_def Let_def
        split: option.splits)


lemma script_run_stored:
  assumes "\<not> truthy (forcedTheme p)"
    and "\<not> denied (storage w)" and "items (storage w) (storageKey p) = Some e" and "e \<noteq> []"
    and "media (darkQuery w) = MEDIA"
  shows "root (snd (ThemeScript_run p w)) =
    (let sc = \<lparr>scope_prelude = prelude_of p, e_declared = True, e_value = Some e, x_value = value_map p\<rparr>;
         u = (if enableSystem p \<and> e = ''system''
              then updateNamed p (if matches (darkQuery w) then ''dark'' else ''light'') True
              else updateStored p)
     in case execPrelude (prelude_of p) (root w) of
          (Some err, d1) \<Rightarrow> d1
        | (None, d1) \<Rightarrow>
            (case execUpdate sc u d1 of
               (Some err, d2) \<Rightarrow> d2
             | (None, d2) \<Rightarrow> execFallback (fallback_of p) (Some e) d2))"
  using assms
  by (auto simp: ThemeScript_run_def script_of_def runScript_def scriptBody_def tryCatch_def andThen_def
        onRoot_def readStored_def getItem_def truthy_def Let_def
        split: prod.splits option.splits)

lemma execFallback_frame:
  "classList (execFallback fb e d) = classList d"
  "attributes (execFallback fb e d) = attributes d"
  by (simp_all add: execFallback_def set_colorScheme_def split: fallback.splits)

lemma after_update_frame:
  "classList (case r of (Some err, d2) \<Rightarrow> d2 | (None, d2) \<Rightarrow> execFallback fb e d2)
     = classList (snd r)"
  "attributes (case r of (Some err, d2) \<Rightarrow> d2 | (None, d2) \<Rightarrow> execFallback fb e d2)
     = attributes (snd r)"
  by (cases r; cases "fst r"; simp add: execFallback_frame)+

lemma resolve_plain:
  assumes "\<not> (enableSystem p \<and> enableMultipleSystemThemes p \<and> startsWith e ''system-'')"
  shows "resolve p mql e =
           (if enableSystem p \<and> e = ''system'' then (if matches mql then ''dark'' else ''light'')
            else e)"
  using assms by (auto simp: resolve_def getSystemTheme_def)

lemma script_class_result:
  assumes "\<not> truthy (forcedTheme p)"
    and "\<not> denied (storage w)" and "items (storage w) (storageKey p) = Some e" and "e \<noteq> []"
    and "media (darkQuery w) = MEDIA"
    and "\<not> (enableSystem p \<and> enableMultipleSystemThemes p \<and> startsWith e ''system-'')"
    and "attribute p = ''class''"
  shows "classList (root (snd (ThemeScript_run p w)))
           = classesAfter p (themeName p (resolve p (darkQuery w) e)) (classList (root w))
         \<and> attributes (root (snd (ThemeScript_run p w))) = attributes (root w)"
proof -
  define sc where "sc = \<lparr>scope_prelude = prelude_of p, e_declared = True, e_value = Some e,
                          x_value = value_map p\<rparr>"
  define u where "u = (if enableSystem p \<and> e = ''system''
              then updateNamed p (if matches (darkQuery w) then ''dark'' else ''light'') True
              else updateStored p)"
  have pre: "prelude_of p = RemoveClasses (attrs p)"
    using assms(7) by (simp add: prelude_of_def)
  have sc: "scope_prelude sc = RemoveClasses (attrs p)" "e_declared sc" "e_value sc = Some e"
    "x_value sc = value_map p"
    by (simp_all add: sc_def pre)
  have run: "root (snd (ThemeScript_run p w)) =
     (case classList_remove (attrs p) (root w) of
          (Some err, d1) \<Rightarrow> d1
        | (None, d1) \<Rightarrow>
            (case execUpdate sc u d1 of
               (Some err, d2) \<Rightarrow> d2
             | (None, d2) \<Rightarrow> execFallback (fallback_of p) (Some e) d2))"
    unfolding script_run_stored [OF assms(1-5)] sc_def u_def pre Let_def execPrelude_def
    by simp
  have upd: "classList (snd (execUpdate sc u d))
           = (case written (themeName p (resolve p (darkQuery w) e)) of
                Some r \<Rightarrow> addToken r (classList d) | None \<Rightarrow> classList d)
         \<and> attributes (snd (execUpdate sc u d)) = attributes d" for d
    using execUpdate_named_class [OF assms(7) sc(1)]
          execUpdate_stored_class [OF assms(7) sc(1,2,3,4) assms(4)]
    by (simp add: u_def resolve_plain [OF assms(6)])
  show ?thesis
  proof (cases "tokensError (attrs p)")
    case (Some err)
    then show ?thesis
      by (simp add: run classList_remove_def classesAfter_def)
  next
    case None
    then show ?thesis
      using upd
      by (simp add: run classList_remove_def classesAfter_def after_update_frame
            split: option.splits)
  qed
qed

lemma script_attribute_result:
  assumes "\<not> truthy (forcedTheme p)"
    and "\<not> denied (storage w)" and "items (storage w) (storageKey p) = Some e" and "e \<noteq> []"
    and "media (darkQuery w) = MEDIA"
    and "\<not> (enableSystem p \<and> enableMultipleSystemThemes p \<and> startsWith e ''system-'')"
    and "attribute p \<noteq> ''class''" and "value_map p = None"
  shows "attributes (root (snd (ThemeScript_run p w)))
           = attributesAfter p (themeName p (resolve p (darkQuery w) e)) (attributes (root w))
         \<and> classList (root (snd (ThemeScript_run p w))) = classList (root w)"
proof -
  define sc where "sc = \<lparr>scope_prelude = prelude_of p, e_declared = True, e_value = Some e,
                          x_value = value_map p\<rparr>"
  define u where "u = (if enableSystem p \<and> e = ''system''
              then updateNamed p (if matches (darkQuery w) then ''dark'' else ''light'') True
              else updateStored p)"
  have pre: "prelude_of p = AttributeName (attribute p)"
    using assms(7) by (simp add: prelude_of_def)
  have sc: "scope_prelude sc = AttributeName (attribute p)" "e_declared sc" "e_value sc = Some e"
    by (simp_all add: sc_def pre)
  have run: "root (snd (ThemeScript_run p w)) =
     (case execUpdate sc u (root w) of
        (Some err, d2) \<Rightarrow> d2
      | (None, d2) \<Rightarrow> execFallback (fallback_of p) (Some e) d2)"
    unfolding script_run_stored [OF assms(1-5)] sc_def u_def pre Let_def execPrelude_def
    by simp
  have upd: "attributes (snd (execUpdate sc u d))
           = attributesAfter p (themeName p (resolve p (darkQuery w) e)) (attributes d)
         \<and> classList (snd (execUpdate sc u d)) = classList d" for d
    using execUpdate_named_attribute [OF assms(7) sc(1) assms(8)]
          execUpdate_stored_attribute [OF assms(7) sc(1) assms(8) sc(2,3) assms(4)] assms(4,8)
    by (simp add: u_def resolve_plain [OF assms(6)] themeName_def written_def)
  show ?thesis
    using upd by (simp add: run after_update_frame)
qed

text \<open>
  Where the script and applyTheme agree. For a stored, non-empty preference that is not a
  compound one under enableMultipleSystemThemes, in a browser that knows the media query
  and lets the storage be read, with no forced theme, and in class mode or without a value
  map: the classes and the attributes of the root after the script are those after
  applyTheme on that preference, whether or not a DOM method threw on the way.
\<close>

lemma script_agrees_with_applyTheme:
  assumes "\<not> truthy (forcedTheme p)"
    and "\<not> denied (storage w)" and "items (storage w) (storageKey p) = Some e" and "e \<noteq> []"
    and "media (darkQuery w) = MEDIA"
    and "\<not> (enableSystem p \<and> enableMultipleSystemThemes p \<and> startsWith e ''system-'')"
    and "attribute p = ''class'' \<or> value_map p = None"
  shows "classList (root (snd (ThemeScript_run p w)))
           = classList (snd (applyTheme p (darkQuery w) (Some e) (root w)))
         \<and> attributes (root (snd (ThemeScript_run p w)))
           = attributes (snd (applyTheme p (darkQuery w) (Some e) (root w)))"
proof (cases "attribute p = ''class''")
  case True
  show ?thesis
    using script_class_result [OF assms(1-6) True] applyTheme_class_result [OF assms(4) True]
    by simp
next
  case False
  then have v: "value_map p = None" using assms(7) by simp
  show ?thesis
    using script_attribute_result [OF assms(1-6) False v]
          applyTheme_attribute_result [OF assms(4) False]
    by simp
qed

lemma script_agrees_instance:
  "classList (root (snd (ThemeScript_run (defaults\<lparr>attribute := ''class''\<rparr>)
       ((storedWorld ''system'' darkOS)\<lparr>root := emptyRoot\<lparr>classList := [''light'', ''page'']\<rparr>\<rparr>))))
     = [''page'', ''dark'']
   \<and> classList (snd (applyTheme (defaults\<lparr>attribute := ''class''\<rparr>) darkOS (Some ''system'')
       (emptyRoot\<lparr>classList := [''light'', ''page'']\<rparr>))) = [''page'', ''dark'']"
  by code_simp


text \<open>
  C1 at the compound preference. With enableMultipleSystemThemes, the stored preference
  \<open>system-hc\<close> and a dark system, the provider reads that preference and applyTheme writes
  \<open>dark-hc\<close> to the attribute, while the script writes \<open>system-hc\<close>. The second
  divergence is independent of it: with a value map in attribute mode, the statement for a
  stored preference is empty, so for the stored preference \<open>dark\<close> the script writes
  nothing where applyTheme writes the mapped value.
\<close>

theorem script_differs_from_applyTheme:
  "fst (getTheme False (storageKey multiSystem) (Some (defaultTheme multiSystem))
          (storage (storedWorld ''system-hc'' darkOS))) = Inr (Some ''system-hc'')
   \<and> attributes (root (snd (ThemeScript_run multiSystem (storedWorld ''system-hc'' darkOS))))
       ''data-theme'' = Some ''system-hc''
   \<and> attributes (snd (applyTheme multiSystem darkOS (Some ''system-hc'')
        (root (storedWorld ''system-hc'' darkOS)))) ''data-theme'' = Some ''dark-hc''
   \<and> attributes (root (snd (ThemeScript_run dayNight (storedWorld ''dark'' darkOS))))
       ''data-theme'' = None
   \<and> attributes (snd (applyTheme dayNight darkOS (Some ''dark'')
        (root (storedWorld ''dark'' darkOS)))) ''data-theme'' = Some ''night''"
  by code_simp

end
